theory Spec2Isabelle
  imports Main "HOL-Library.Word" "HOL-Library.Sublist"
begin

section \<open>The functions connector handler (core/services/functions/connector_handler.go)\<close>

text \<open>
  The handler receives a gateway message, asks the allowlist whether the sender may use it,
  dispatches on the method name, calls the S4 storage and sends a signed response through
  the gateway connector. Everything it calls lives outside the file: the allowlist, the
  storage and the connector are Go interfaces, and JSON, \<open>HexToAddress\<close> and the signing of
  a message are library functions. The interfaces are records of functions over a state
  \<open>'w\<close> of the collaborators (a call may change it), the library functions are the fields
  of the record \<open>lib\<close>, and every call the handler makes is written to a trace of events,
  in the order of the source.
\<close>

subsection \<open>Data\<close>

type_synonym bytes = "8 word list"

text \<open>\<open>ethCommon.Address\<close> is \<open>[20]byte\<close>.\<close>

type_synonym Address = "160 word"

text \<open>A Go \<open>error\<close> is modelled by its description, what \<open>%v\<close> prints.\<close>

type_synonym error = string

text \<open>\<open>api.MessageBody\<close> and \<open>api.Message\<close>: the fields the handler reads and writes.\<close>

record MessageBody =
  MessageId :: string
  Method :: string
  DonId :: string
  Sender :: string
  Payload :: bytes

record Message =
  Signature :: bytes
  Body :: MessageBody

text \<open>\<open>s4.Key\<close> and \<open>s4.Record\<close>. Go's \<open>uint\<close> is taken at 64 bits.\<close>

record Key =
  Address :: Address
  SlotId :: "64 word"
  Version :: "64 word"

record Record =
  Expiration :: "64 word"
  Payload :: bytes

text \<open>
  A row of the snapshot that \<open>storage.List\<close> returns. The handler reads three fields
  of it; whatever else a row holds is the extension \<open>'r\<close> of the record.
\<close>

record SnapshotRow =
  SlotId :: "64 word"
  Version :: "64 word"
  Expiration :: "64 word"

text \<open>The types local to \<open>handleSecretsList\<close> and \<open>handleSecretsSet\<close>.\<close>

record ListRow =
  SlotID :: "64 word"
  Version :: "64 word"
  Expiration :: "64 word"

record ListResponse =
  Success :: bool
  ErrorMessage :: string
  Rows :: "ListRow list"

record SetRequest =
  SlotID :: "64 word"
  Version :: "64 word"
  Expiration :: "64 word"
  Payload :: bytes
  Signature :: bytes

record SetResponse =
  Success :: bool
  ErrorMessage :: string

text \<open>The \<open>payload any\<close> of \<open>sendResponse\<close> is one of the two response types.\<close>

datatype payload = ListResponse_of ListResponse | SetResponse_of SetResponse

text \<open>\<open>ecdsa.PrivateKey\<close> embeds its \<open>PublicKey\<close>.\<close>

record PublicKey =
  X :: int
  Y :: int

record PrivateKey =
  PublicKey :: PublicKey
  D :: int

subsection \<open>Collaborators\<close>

text \<open>
  \<open>functions.OnchainAllowlist\<close>, \<open>s4.Storage\<close> and \<open>connector.GatewayConnector\<close>. A method
  that returns \<open>error\<close> gives \<open>None\<close> for \<open>nil\<close>; one that returns a value and an error
  gives \<open>Inl\<close> of the error or \<open>Inr\<close> of the value.
\<close>

record ('c, 'w) OnchainAllowlist =
  Allow :: "Address \<Rightarrow> 'w \<Rightarrow> bool \<times> 'w"
  Start :: "'c \<Rightarrow> 'w \<Rightarrow> error option \<times> 'w"
  Close :: "'w \<Rightarrow> error option \<times> 'w"

record ('c, 'r, 'w) Storage =
  List :: "'c \<Rightarrow> Address \<Rightarrow> 'w \<Rightarrow> (error + 'r SnapshotRow_scheme list) \<times> 'w"
  Put :: "'c \<Rightarrow> Key \<Rightarrow> Record \<Rightarrow> bytes \<Rightarrow> 'w \<Rightarrow> error option \<times> 'w"

record ('c, 'w) GatewayConnector =
  SendToGateway :: "'c \<Rightarrow> string \<Rightarrow> Message \<Rightarrow> 'w \<Rightarrow> error option \<times> 'w"

text \<open>
  The functions of other libraries that the file calls, as parameters:
  \<open>ethCommon.HexToAddress\<close> of go-ethereum, which takes a string and returns an address
  and no error, \<open>json.Unmarshal\<close> into a \<open>SetRequest\<close> and \<open>json.Marshal\<close> of a response
  from the standard library, and the signature primitive under \<open>api.Message.Sign\<close> with
  its verification.
\<close>

record lib =
  HexToAddress :: "string \<Rightarrow> Address"
  json_Unmarshal :: "bytes \<Rightarrow> error + SetRequest"
  json_Marshal :: "payload \<Rightarrow> error + bytes"
  SignBody :: "PrivateKey \<Rightarrow> MessageBody \<Rightarrow> error + bytes"
  VerifyBody :: "PublicKey \<Rightarrow> MessageBody \<Rightarrow> bytes \<Rightarrow> bool"

text \<open>
  Modelled from the spec: \<open>api.Message.Sign\<close> (core/services/gateway/api) is not among the
  sources. The spec says that the envelope is the unit of signing, that the signature
  covers the non-signature fields and that the response sender signs the envelope with the
  node's private key: the body is signed as it is and the result is stored in the
  signature field; a signing error leaves no message.
\<close>

definition Message_Sign :: "lib \<Rightarrow> PrivateKey \<Rightarrow> Message \<Rightarrow> error + Message" where
  "Message_Sign l key msg =
     (case SignBody l key (Body msg) of
        Inl err \<Rightarrow> Inl err
      | Inr s \<Rightarrow> Inr (msg\<lparr>Message.Signature := s\<rparr>))"

text \<open>
  Modelled from the spec: the verification of an envelope against a public key, the
  counterpart of \<open>Message_Sign\<close>, is not among the sources either.
\<close>

definition Message_Verify :: "lib \<Rightarrow> PublicKey \<Rightarrow> Message \<Rightarrow> bool" where
  "Message_Verify l pub msg = VerifyBody l pub (Body msg) (Message.Signature msg)"

text \<open>
  Modelled from the spec: \<open>utils.StartStopOnce\<close> (core/utils) is not among the sources. The
  spec gives the lifecycle as stopped, started, stopped, "guarded so each transition runs
  at most once", and asks that a second \<open>Start\<close> or a \<open>Close\<close> before \<open>Start\<close> be a
  well-defined no-op or error. The state before the first \<open>Start\<close> is \<open>Unstarted\<close> and
  the one after \<open>Close\<close> is \<open>Stopped\<close>, so that neither transition can run again; a
  \<open>Start\<close> whose function fails has used the transition and ends in \<open>StartFailed\<close>.
\<close>

datatype StartStopOnce = Unstarted | Started | StartFailed | Stopped

definition StartOnce ::
  "StartStopOnce \<Rightarrow> string \<Rightarrow> ('w \<Rightarrow> error option \<times> 'w \<times> 'e list) \<Rightarrow> 'w
     \<Rightarrow> StartStopOnce \<times> error option \<times> 'w \<times> 'e list" where
  "StartOnce once name fn w =
     (if once = Unstarted then
        (case fn w of
           (None, w', evs) \<Rightarrow> (Started, None, w', evs)
         | (Some err, w', evs) \<Rightarrow> (StartFailed, Some err, w', evs))
      else (once, Some (name @ '' has already been started once''), w, []))"

definition StopOnce ::
  "StartStopOnce \<Rightarrow> string \<Rightarrow> ('w \<Rightarrow> error option \<times> 'w \<times> 'e list) \<Rightarrow> 'w
     \<Rightarrow> StartStopOnce \<times> error option \<times> 'w \<times> 'e list" where
  "StopOnce once name fn w =
     (if once = Started then
        (case fn w of (err, w', evs) \<Rightarrow> (Stopped, err, w', evs))
      else (once, Some (name @ '' is not started''), w, []))"

subsection \<open>The handler\<close>

text \<open>
  \<open>NewFunctionsConnectorHandler\<close> leaves \<open>connector\<close> nil until \<open>SetConnector\<close> is called;
  a call of \<open>SendToGateway\<close> on the nil interface panics. The other collaborators are
  the constructor's arguments and the message is the one the connector received: they are
  taken as present.
\<close>

record ('c, 'r, 'w) functionsConnectorHandler =
  once :: StartStopOnce
  connector :: "('c, 'w) GatewayConnector option"
  signerKey :: PrivateKey
  nodeAddress :: string
  storage :: "('c, 'r, 'w) Storage"
  allowlist :: "('c, 'w) OnchainAllowlist"

definition methodSecretsSet :: string where
  "methodSecretsSet = ''secrets_set''"

definition methodSecretsList :: string where
  "methodSecretsList = ''secrets_list''"

text \<open>What a logger call is given after its message.\<close>

datatype logval = Str string | Addr Address | Error error

text \<open>The calls the handler makes on its collaborators and its logger.\<close>

datatype 'c event =
    Log_Errorw string "(string \<times> logval) list"
  | Log_Debugw string "(string \<times> logval) list"
  | Call_Allow Address
  | Call_Start 'c
  | Call_Close
  | Call_List 'c Address
  | Call_Put 'c Key Record bytes
  | Call_SendToGateway 'c string Message

text \<open>A function of the handler returns, or panics after the events it has made.\<close>

datatype 'a outcome = Returned 'a | Panicked

definition NewFunctionsConnectorHandler ::
  "string \<Rightarrow> PrivateKey \<Rightarrow> ('c, 'r, 'w) Storage \<Rightarrow> ('c, 'w) OnchainAllowlist
     \<Rightarrow> ('c, 'r, 'w) functionsConnectorHandler" where
  "NewFunctionsConnectorHandler nodeAddress' signerKey' storage' allowlist' =
     \<lparr>once = Unstarted, connector = None, signerKey = signerKey',
      nodeAddress = nodeAddress', storage = storage', allowlist = allowlist'\<rparr>"

definition SetConnector ::
  "('c, 'r, 'w) functionsConnectorHandler \<Rightarrow> ('c, 'w) GatewayConnector
     \<Rightarrow> ('c, 'r, 'w) functionsConnectorHandler" where
  "SetConnector h connector' = h\<lparr>connector := Some connector'\<rparr>"

text \<open>The message that \<open>sendResponse\<close> builds around the serialized payload, unsigned.\<close>

definition response_message ::
  "('c, 'r, 'w) functionsConnectorHandler \<Rightarrow> MessageBody \<Rightarrow> bytes \<Rightarrow> Message" where
  "response_message h requestBody payloadJson =
     \<lparr>Message.Signature = [],
      Body = \<lparr>MessageId = MessageId requestBody,
               Method = Method requestBody,
               DonId = DonId requestBody,
               Sender = nodeAddress h,
               MessageBody.Payload = payloadJson\<rparr>\<rparr>"

definition sendResponse ::
  "lib \<Rightarrow> ('c, 'r, 'w) functionsConnectorHandler \<Rightarrow> 'c \<Rightarrow> string \<Rightarrow> MessageBody \<Rightarrow> payload
     \<Rightarrow> 'w \<Rightarrow> error option outcome \<times> 'w \<times> 'c event list" where
  "sendResponse l h ctx gatewayId requestBody payload w =
     (case json_Marshal l payload of
        Inl err \<Rightarrow> (Returned (Some err), w, [])
      | Inr payloadJson \<Rightarrow>
          (case Message_Sign l (signerKey h) (response_message h requestBody payloadJson) of
             Inl err \<Rightarrow> (Returned (Some err), w, [])
           | Inr msg \<Rightarrow>
               (case connector h of
                  None \<Rightarrow> (Panicked, w, [])
                | Some c \<Rightarrow>
                    (case SendToGateway c ctx gatewayId msg w of
                       (None, w') \<Rightarrow>
                         (Returned None, w',
                          [Call_SendToGateway ctx gatewayId msg,
                           Log_Debugw ''sent to gateway''
                             [(''id'', Str gatewayId),
                              (''messageId'', Str (MessageId requestBody)),
                              (''donId'', Str (DonId requestBody)),
                              (''method'', Str (Method requestBody))]])
                     | (Some err, w') \<Rightarrow>
                         (Returned (Some err), w',
                          [Call_SendToGateway ctx gatewayId msg])))))"

text \<open>The end of both method handlers: send, and log the error if there is one.\<close>

definition send_and_log ::
  "lib \<Rightarrow> ('c, 'r, 'w) functionsConnectorHandler \<Rightarrow> 'c \<Rightarrow> string \<Rightarrow> MessageBody \<Rightarrow> payload
     \<Rightarrow> 'w \<Rightarrow> unit outcome \<times> 'w \<times> 'c event list" where
  "send_and_log l h ctx gatewayId body response w =
     (case sendResponse l h ctx gatewayId body response w of
        (Panicked, w', evs) \<Rightarrow> (Panicked, w', evs)
      | (Returned None, w', evs) \<Rightarrow> (Returned (), w', evs)
      | (Returned (Some err), w', evs) \<Rightarrow>
          (Returned (), w',
           evs @ [Log_Errorw ''failed to send response to gateway''
                    [(''id'', Str gatewayId), (''error'', Error err)]]))"

text \<open>The loop of \<open>handleSecretsList\<close> over the snapshot, row by row.\<close>

fun list_rows :: "'r SnapshotRow_scheme list \<Rightarrow> ListRow list" where
  "list_rows [] = []"
| "list_rows (row # snapshot) =
     \<lparr>ListRow.SlotID = SnapshotRow.SlotId row,
      ListRow.Version = SnapshotRow.Version row,
      ListRow.Expiration = SnapshotRow.Expiration row\<rparr> # list_rows snapshot"

text \<open>
  The value of \<open>response\<close> in \<open>handleSecretsList\<close> when \<open>sendResponse\<close> is called,
  with the storage call that it comes from.
\<close>

definition secretsListResponse ::
  "('c, 'r, 'w) functionsConnectorHandler \<Rightarrow> 'c \<Rightarrow> Address \<Rightarrow> 'w
     \<Rightarrow> ListResponse \<times> 'w \<times> 'c event list" where
  "secretsListResponse h ctx fromAddr w =
     (case List (storage h) ctx fromAddr w of
        (Inr snapshot, w1) \<Rightarrow>
          (\<lparr>ListResponse.Success = True, ListResponse.ErrorMessage = [],
            Rows = list_rows snapshot\<rparr>, w1, [Call_List ctx fromAddr])
      | (Inl err, w1) \<Rightarrow>
          (\<lparr>ListResponse.Success = False,
            ListResponse.ErrorMessage = ''Failed to list secrets: '' @ err,
            Rows = []\<rparr>, w1, [Call_List ctx fromAddr]))"

definition handleSecretsList ::
  "lib \<Rightarrow> ('c, 'r, 'w) functionsConnectorHandler \<Rightarrow> 'c \<Rightarrow> string \<Rightarrow> MessageBody \<Rightarrow> Address
     \<Rightarrow> 'w \<Rightarrow> unit outcome \<times> 'w \<times> 'c event list" where
  "handleSecretsList l h ctx gatewayId body fromAddr w =
     (case secretsListResponse h ctx fromAddr w of
        (response, w1, evs1) \<Rightarrow>
          (case send_and_log l h ctx gatewayId body (ListResponse_of response) w1 of
             (out, w2, evs2) \<Rightarrow> (out, w2, evs1 @ evs2)))"

text \<open>
  The value of \<open>response\<close> in \<open>handleSecretsSet\<close> when \<open>sendResponse\<close> is called:
  the payload is decoded, and only a decoded request reaches \<open>storage.Put\<close>.
\<close>

definition secretsSetResponse ::
  "lib \<Rightarrow> ('c, 'r, 'w) functionsConnectorHandler \<Rightarrow> 'c \<Rightarrow> MessageBody \<Rightarrow> Address \<Rightarrow> 'w
     \<Rightarrow> SetResponse \<times> 'w \<times> 'c event list" where
  "secretsSetResponse l h ctx body fromAddr w =
     (case json_Unmarshal l (MessageBody.Payload body) of
        Inr request \<Rightarrow>
          (let key = \<lparr>Address = fromAddr,
                      Key.SlotId = SetRequest.SlotID request,
                      Key.Version = SetRequest.Version request\<rparr>;
               record = \<lparr>Record.Expiration = SetRequest.Expiration request,
                         Record.Payload = SetRequest.Payload request\<rparr>
           in case Put (storage h) ctx key record (SetRequest.Signature request) w of
                (None, w1) \<Rightarrow>
                  (\<lparr>SetResponse.Success = True, SetResponse.ErrorMessage = []\<rparr>, w1,
                   [Call_Put ctx key record (SetRequest.Signature request)])
              | (Some err, w1) \<Rightarrow>
                  (\<lparr>SetResponse.Success = False,
                    SetResponse.ErrorMessage = ''Failed to set secret: '' @ err\<rparr>, w1,
                   [Call_Put ctx key record (SetRequest.Signature request)]))
      | Inl err \<Rightarrow>
          (\<lparr>SetResponse.Success = False,
            SetResponse.ErrorMessage = ''Bad request to set secret: '' @ err\<rparr>, w, []))"

definition handleSecretsSet ::
  "lib \<Rightarrow> ('c, 'r, 'w) functionsConnectorHandler \<Rightarrow> 'c \<Rightarrow> string \<Rightarrow> MessageBody \<Rightarrow> Address
     \<Rightarrow> 'w \<Rightarrow> unit outcome \<times> 'w \<times> 'c event list" where
  "handleSecretsSet l h ctx gatewayId body fromAddr w =
     (case secretsSetResponse l h ctx body fromAddr w of
        (response, w1, evs1) \<Rightarrow>
          (case send_and_log l h ctx gatewayId body (SetResponse_of response) w1 of
             (out, w2, evs2) \<Rightarrow> (out, w2, evs1 @ evs2)))"

definition HandleGatewayMessage ::
  "lib \<Rightarrow> ('c, 'r, 'w) functionsConnectorHandler \<Rightarrow> 'c \<Rightarrow> string \<Rightarrow> Message
     \<Rightarrow> 'w \<Rightarrow> unit outcome \<times> 'w \<times> 'c event list" where
  "HandleGatewayMessage l h ctx gatewayId msg w =
     (let body = Body msg;
          fromAddr = HexToAddress l (Sender body)
      in case Allow (allowlist h) fromAddr w of
           (False, w1) \<Rightarrow>
             (Returned (), w1,
              [Call_Allow fromAddr,
               Log_Errorw ''allowlist prevented the request from this address''
                 [(''id'', Str gatewayId), (''address'', Addr fromAddr)]])
         | (True, w1) \<Rightarrow>
             (let pre = [Call_Allow fromAddr,
                         Log_Debugw ''handling gateway request''
                           [(''id'', Str gatewayId), (''method'', Str (Method body))]]
              in if Method body = methodSecretsList then
                   (case handleSecretsList l h ctx gatewayId body fromAddr w1 of
                      (out, w2, evs) \<Rightarrow> (out, w2, pre @ evs))
                 else if Method body = methodSecretsSet then
                   (case handleSecretsSet l h ctx gatewayId body fromAddr w1 of
                      (out, w2, evs) \<Rightarrow> (out, w2, pre @ evs))
                 else
                   (Returned (), w1,
                    pre @ [Log_Errorw ''unsupported method''
                             [(''id'', Str gatewayId), (''method'', Str (Method body))]])))"

text \<open>
  \<open>Start\<close> and \<open>Close\<close> return the handler with its new lifecycle state, and the error.
\<close>

definition Start_handler ::
  "('c, 'r, 'w) functionsConnectorHandler \<Rightarrow> 'c \<Rightarrow> 'w
     \<Rightarrow> (('c, 'r, 'w) functionsConnectorHandler \<times> error option) \<times> 'w \<times> 'c event list" where
  "Start_handler h ctx w =
     (case StartOnce (once h) ''FunctionsConnectorHandler''
             (\<lambda>w0. case Start (allowlist h) ctx w0 of (err, w') \<Rightarrow> (err, w', [Call_Start ctx])) w of
        (s, err, w', evs) \<Rightarrow> ((h\<lparr>once := s\<rparr>, err), w', evs))"

definition Close_handler ::
  "('c, 'r, 'w) functionsConnectorHandler \<Rightarrow> 'w
     \<Rightarrow> (('c, 'r, 'w) functionsConnectorHandler \<times> error option) \<times> 'w \<times> 'c event list" where
  "Close_handler h w =
     (case StopOnce (once h) ''FunctionsConnectorHandler''
             (\<lambda>w0. case Close (allowlist h) w0 of (err, w') \<Rightarrow> (err, w', [Call_Close])) w of
        (s, err, w', evs) \<Rightarrow> ((h\<lparr>once := s\<rparr>, err), w', evs))"

subsection \<open>Observations on a trace\<close>

fun is_send :: "'c event \<Rightarrow> bool" where
  "is_send (Call_SendToGateway _ _ _) = True"
| "is_send _ = False"

fun is_storage :: "'c event \<Rightarrow> bool" where
  "is_storage (Call_List _ _) = True"
| "is_storage (Call_Put _ _ _ _) = True"
| "is_storage _ = False"

fun is_log :: "'c event \<Rightarrow> bool" where
  "is_log (Log_Errorw _ _) = True"
| "is_log (Log_Debugw _ _) = True"
| "is_log _ = False"

text \<open>The messages submitted to the transport, in order.\<close>

fun sent :: "'c event list \<Rightarrow> Message list" where
  "sent [] = []"
| "sent (Call_SendToGateway _ _ m # evs) = m # sent evs"
| "sent (_ # evs) = sent evs"

text \<open>The owner address of a storage call.\<close>

fun storage_owner :: "'c event \<Rightarrow> Address option" where
  "storage_owner (Call_List _ a) = Some a"
| "storage_owner (Call_Put _ k _ _) = Some (Address k)"
| "storage_owner _ = None"


text \<open>The events of a run.\<close>

definition events :: "'a \<times> 'w \<times> 'c event list \<Rightarrow> 'c event list" where
  "events r = snd (snd r)"

subsection \<open>Runs of the lifecycle\<close>

text \<open>A sequence of \<open>Start\<close> and \<open>Close\<close> calls on one handler, one after the other.\<close>

datatype 'c lifecycle_call = DoStart 'c | DoClose

fun run_lifecycle ::
  "('c, 'r, 'w) functionsConnectorHandler \<Rightarrow> 'c lifecycle_call list \<Rightarrow> 'w
     \<Rightarrow> ('c, 'r, 'w) functionsConnectorHandler \<times> 'w \<times> 'c event list" where
  "run_lifecycle h [] w = (h, w, [])"
| "run_lifecycle h (DoStart ctx # cs) w =
     (case Start_handler h ctx w of
        ((h1, err), w1, evs1) \<Rightarrow>
          (case run_lifecycle h1 cs w1 of (h2, w2, evs2) \<Rightarrow> (h2, w2, evs1 @ evs2)))"
| "run_lifecycle h (DoClose # cs) w =
     (case Close_handler h w of
        ((h1, err), w1, evs1) \<Rightarrow>
          (case run_lifecycle h1 cs w1 of (h2, w2, evs2) \<Rightarrow> (h2, w2, evs1 @ evs2)))"

fun is_start :: "'c event \<Rightarrow> bool" where
  "is_start (Call_Start _) = True"
| "is_start _ = False"

fun is_close :: "'c event \<Rightarrow> bool" where
  "is_close Call_Close = True"
| "is_close _ = False"

subsection \<open>A small configuration to run the handler on\<close>

text \<open>
  An in-memory storage, an allowlist of two addresses, a connector that accepts every
  message and toy library functions. The state of the collaborators holds the stored
  records and the state of the request's context: when \<open>cancel_during_storage\<close> is set,
  the context is cancelled while the storage call runs, and the call returns the
  context's error.
\<close>

record world =
  store :: "(Key \<times> Record) list"
  cancel_during_storage :: bool
  ctx_done :: bool

record StoredRow = SnapshotRow +
  Stored :: bytes

definition stored_rows :: "Address \<Rightarrow> (Key \<times> Record) list \<Rightarrow> StoredRow list" where
  "stored_rows a kvs =
     map (\<lambda>(k, r). \<lparr>SnapshotRow.SlotId = Key.SlotId k, SnapshotRow.Version = Key.Version k,
                     SnapshotRow.Expiration = Record.Expiration r, Stored = Record.Payload r\<rparr>)
       (filter (\<lambda>(k, r). Address k = a) kvs)"

definition test_storage :: "(nat, unit StoredRow_ext, world) Storage" where
  "test_storage =
     \<lparr>List = (\<lambda>ctx a w.
         if cancel_during_storage w then (Inl ''context canceled'', w\<lparr>ctx_done := True\<rparr>)
         else (Inr (stored_rows a (store w)), w)),
      Put = (\<lambda>ctx k r s w.
         if cancel_during_storage w then (Some ''context canceled'', w\<lparr>ctx_done := True\<rparr>)
         else (None, w\<lparr>store := store w @ [(k, r)]\<rparr>))\<rparr>"

definition test_allowlist :: "(nat, world) OnchainAllowlist" where
  "test_allowlist =
     \<lparr>Allow = (\<lambda>a w. (a = 0 \<or> a = 1, w)),
      Start = (\<lambda>ctx w. (None, w)),
      Close = (\<lambda>w. (None, w))\<rparr>"

definition test_connector :: "(nat, world) GatewayConnector" where
  "test_connector = \<lparr>SendToGateway = (\<lambda>ctx gatewayId m w. (None, w))\<rparr>"

definition failing_connector :: "(nat, world) GatewayConnector" where
  "failing_connector = \<lparr>SendToGateway = (\<lambda>ctx gatewayId m w. (Some ''connection closed'', w))\<rparr>"

definition test_request :: SetRequest where
  "test_request =
     \<lparr>SetRequest.SlotID = 3, SetRequest.Version = 1, SetRequest.Expiration = 100,
      SetRequest.Payload = [7, 7], SetRequest.Signature = [9]\<rparr>"

definition test_marshal :: "payload \<Rightarrow> error + bytes" where
  "test_marshal p =
     (case p of
        SetResponse_of r \<Rightarrow> Inr [if SetResponse.Success r then 1 else 0]
      | ListResponse_of r \<Rightarrow>
          Inr [if ListResponse.Success r then 1 else 0, of_nat (length (Rows r))])"

definition test_lib :: lib where
  "test_lib =
     \<lparr>HexToAddress = (\<lambda>s. if s = ''0x01'' then 1 else if s = ''0x02'' then 2 else 0),
      json_Unmarshal = (\<lambda>p. if p = [1] then Inr test_request else Inl ''invalid character''),
      json_Marshal = test_marshal,
      SignBody = (\<lambda>k b. if D k = 0 then Inl ''invalid key''
                         else Inr (word_of_int (D k) # MessageBody.Payload b)),
      VerifyBody = (\<lambda>pub b s. s = word_of_int (X pub) # MessageBody.Payload b)\<rparr>"

definition test_key :: PrivateKey where
  "test_key = \<lparr>PublicKey = \<lparr>X = 5, Y = 0\<rparr>, D = 5\<rparr>"

definition test_handler :: "(nat, unit StoredRow_ext, world) functionsConnectorHandler" where
  "test_handler =
     SetConnector (NewFunctionsConnectorHandler ''0xnode'' test_key test_storage test_allowlist)
       test_connector"

definition test_world :: world where
  "test_world =
     \<lparr>store = [(\<lparr>Address = 1, Key.SlotId = 1, Key.Version = 2\<rparr>,
                 \<lparr>Record.Expiration = 100, Record.Payload = [4, 2]\<rparr>),
                (\<lparr>Address = 1, Key.SlotId = 2, Key.Version = 1\<rparr>,
                 \<lparr>Record.Expiration = 200, Record.Payload = [4, 3]\<rparr>)],
      cancel_during_storage = False, ctx_done = False\<rparr>"

definition test_message :: "string \<Rightarrow> string \<Rightarrow> bytes \<Rightarrow> Message" where
  "test_message sender method p =
     \<lparr>Message.Signature = [],
      Body = \<lparr>MessageId = ''m1'', Method = method, DonId = ''don'', Sender = sender,
               MessageBody.Payload = p\<rparr>\<rparr>"

section \<open>Properties\<close>

subsection \<open>Facts about the response sender and the dispatch\<close>

lemmas test_defs =
  test_handler_def SetConnector_def NewFunctionsConnectorHandler_def test_allowlist_def
  test_lib_def test_message_def test_storage_def test_connector_def test_world_def
  test_key_def test_request_def test_marshal_def methodSecretsSet_def methodSecretsList_def
  stored_rows_def

lemma sent_append: "sent (xs @ ys) = sent xs @ sent ys"
  by (induction xs rule: sent.induct) simp_all

lemma sendResponse_sent:
  "sent (events (sendResponse l h ctx gatewayId rb p w)) =
     (case json_Marshal l p of
        Inl err \<Rightarrow> []
      | Inr pj \<Rightarrow>
          (case Message_Sign l (signerKey h) (response_message h rb pj) of
             Inl err \<Rightarrow> []
           | Inr m \<Rightarrow> (case connector h of None \<Rightarrow> [] | Some c \<Rightarrow> [m])))"
  by (simp add: sendResponse_def events_def split: sum.splits option.splits prod.splits)

lemma sendResponse_no_storage:
  "filter is_storage (events (sendResponse l h ctx gatewayId rb p w)) = []"
  by (simp add: sendResponse_def events_def split: sum.splits option.splits prod.splits)

lemma send_and_log_sent:
  "sent (events (send_and_log l h ctx gatewayId rb p w)) =
   sent (events (sendResponse l h ctx gatewayId rb p w))"
  by (simp add: send_and_log_def events_def sent_append
      split: prod.splits outcome.splits option.splits)

lemma send_and_log_no_storage:
  "filter is_storage (events (send_and_log l h ctx gatewayId rb p w)) = []"
  using sendResponse_no_storage [of l h ctx gatewayId rb p w]
  by (auto simp add: send_and_log_def events_def
      split: prod.splits outcome.splits option.splits)

lemma send_and_log_sent_cases:
  "sent (events (send_and_log l h ctx gatewayId rb p w)) =
     (case json_Marshal l p of
        Inl err \<Rightarrow> []
      | Inr pj \<Rightarrow>
          (case Message_Sign l (signerKey h) (response_message h rb pj) of
             Inl err \<Rightarrow> []
           | Inr m \<Rightarrow> (case connector h of None \<Rightarrow> [] | Some c \<Rightarrow> [m])))"
  by (simp only: send_and_log_sent sendResponse_sent)

lemma send_and_log_sent_elem:
  assumes "m \<in> set (sent (events (send_and_log l h ctx gatewayId rb p w)))"
  shows "\<exists>pj. json_Marshal l p = Inr pj
            \<and> Message_Sign l (signerKey h) (response_message h rb pj) = Inr m"
proof -
  from assms have m: "m \<in> set (case json_Marshal l p of
        Inl err \<Rightarrow> []
      | Inr pj \<Rightarrow>
          (case Message_Sign l (signerKey h) (response_message h rb pj) of
             Inl err \<Rightarrow> []
           | Inr m \<Rightarrow> (case connector h of None \<Rightarrow> [] | Some c \<Rightarrow> [m])))"
    by (simp only: send_and_log_sent_cases)
  show ?thesis
  proof (cases "json_Marshal l p")
    case (Inl e)
    with m show ?thesis by simp
  next
    case pj: (Inr pj)
    show ?thesis
    proof (cases "Message_Sign l (signerKey h) (response_message h rb pj)")
      case (Inl e)
      with m pj show ?thesis by simp
    next
      case sg: (Inr m')
      with m pj have "m = m'" by (cases "connector h") simp_all
      with pj sg show ?thesis by simp
    qed
  qed
qed

lemma Message_Sign_Inr:
  assumes "Message_Sign l key m = Inr m'"
  shows "Body m' = Body m \<and> SignBody l key (Body m) = Inr (Message.Signature m')"
  using assms by (auto simp add: Message_Sign_def split: sum.splits)

lemma send_and_log_payload:
  assumes "m \<in> set (sent (events (send_and_log l h ctx gatewayId rb p w)))"
  shows "json_Marshal l p = Inr (MessageBody.Payload (Body m))"
proof -
  from send_and_log_sent_elem [OF assms]
  obtain pj where pj: "json_Marshal l p = Inr pj"
    and m: "Message_Sign l (signerKey h) (response_message h rb pj) = Inr m"
    by blast
  from Message_Sign_Inr [OF m] have "MessageBody.Payload (Body m) = pj"
    by (simp add: response_message_def)
  with pj show ?thesis by simp
qed

lemma send_and_log_one:
  assumes "connector h \<noteq> None"
      and "\<exists>pj. json_Marshal l p = Inr pj"
      and "\<forall>b. \<exists>s. SignBody l (signerKey h) b = Inr s"
  shows "length (sent (events (send_and_log l h ctx gatewayId rb p w))) = 1"
proof -
  from assms(2) obtain pj where pj: "json_Marshal l p = Inr pj" by blast
  from assms(3) obtain s where
    s: "SignBody l (signerKey h) (Body (response_message h rb pj)) = Inr s" by blast
  from assms(1) obtain c where c: "connector h = Some c" by blast
  show ?thesis
    by (simp add: send_and_log_sent_cases pj Message_Sign_def s c)
qed

lemma events_handleSecretsSet:
  "events (handleSecretsSet l h ctx gatewayId body a w) =
     events (secretsSetResponse l h ctx body a w) @
     events (send_and_log l h ctx gatewayId body
        (SetResponse_of (fst (secretsSetResponse l h ctx body a w)))
        (fst (snd (secretsSetResponse l h ctx body a w))))"
  by (simp add: handleSecretsSet_def events_def split: prod.splits)

lemma events_handleSecretsList:
  "events (handleSecretsList l h ctx gatewayId body a w) =
     events (secretsListResponse h ctx a w) @
     events (send_and_log l h ctx gatewayId body
        (ListResponse_of (fst (secretsListResponse h ctx a w)))
        (fst (snd (secretsListResponse h ctx a w))))"
  by (simp add: handleSecretsList_def events_def split: prod.splits)

lemma events_HandleGatewayMessage_allowed:
  assumes "Allow (allowlist h) (HexToAddress l (Sender (Body msg))) w = (True, w1)"
  shows "events (HandleGatewayMessage l h ctx gatewayId msg w) =
     [Call_Allow (HexToAddress l (Sender (Body msg))),
      Log_Debugw ''handling gateway request''
        [(''id'', Str gatewayId), (''method'', Str (Method (Body msg)))]] @
     (if Method (Body msg) = methodSecretsList then
        events (handleSecretsList l h ctx gatewayId (Body msg)
                 (HexToAddress l (Sender (Body msg))) w1)
      else if Method (Body msg) = methodSecretsSet then
        events (handleSecretsSet l h ctx gatewayId (Body msg)
                 (HexToAddress l (Sender (Body msg))) w1)
      else [Log_Errorw ''unsupported method''
              [(''id'', Str gatewayId), (''method'', Str (Method (Body msg)))]])"
  using assms
  by (simp add: HandleGatewayMessage_def events_def Let_def split: prod.splits)

lemma secretsSetResponse_events:
  "filter is_storage (events (secretsSetResponse l h ctx body a w)) =
     events (secretsSetResponse l h ctx body a w)
   \<and> sent (events (secretsSetResponse l h ctx body a w)) = []"
  by (simp add: secretsSetResponse_def events_def Let_def
      split: sum.splits prod.splits option.splits)

lemma secretsListResponse_events:
  "events (secretsListResponse h ctx a w) = [Call_List ctx a]"
  by (simp add: secretsListResponse_def events_def split: sum.splits prod.splits)

lemma HandleGatewayMessage_set:
  assumes "Allow (allowlist h) (HexToAddress l (Sender (Body msg))) w = (True, w1)"
      and "Method (Body msg) = methodSecretsSet"
  shows "filter is_storage (events (HandleGatewayMessage l h ctx gatewayId msg w)) =
           events (secretsSetResponse l h ctx (Body msg) (HexToAddress l (Sender (Body msg))) w1)"
    and "sent (events (HandleGatewayMessage l h ctx gatewayId msg w)) =
           sent (events (send_and_log l h ctx gatewayId (Body msg)
             (SetResponse_of (fst (secretsSetResponse l h ctx (Body msg)
                (HexToAddress l (Sender (Body msg))) w1)))
             (fst (snd (secretsSetResponse l h ctx (Body msg)
                (HexToAddress l (Sender (Body msg))) w1)))))"
proof -
  have neq: "methodSecretsSet \<noteq> methodSecretsList"
    by (simp add: methodSecretsSet_def methodSecretsList_def)
  have evs: "events (HandleGatewayMessage l h ctx gatewayId msg w) =
     [Call_Allow (HexToAddress l (Sender (Body msg))),
      Log_Debugw ''handling gateway request''
        [(''id'', Str gatewayId), (''method'', Str (Method (Body msg)))]] @
     events (handleSecretsSet l h ctx gatewayId (Body msg)
               (HexToAddress l (Sender (Body msg))) w1)"
    using assms(2) neq by (simp add: events_HandleGatewayMessage_allowed [OF assms(1)])
  show "filter is_storage (events (HandleGatewayMessage l h ctx gatewayId msg w)) =
           events (secretsSetResponse l h ctx (Body msg) (HexToAddress l (Sender (Body msg))) w1)"
    by (simp add: evs events_handleSecretsSet send_and_log_no_storage secretsSetResponse_events)
  show "sent (events (HandleGatewayMessage l h ctx gatewayId msg w)) =
           sent (events (send_and_log l h ctx gatewayId (Body msg)
             (SetResponse_of (fst (secretsSetResponse l h ctx (Body msg)
                (HexToAddress l (Sender (Body msg))) w1)))
             (fst (snd (secretsSetResponse l h ctx (Body msg)
                (HexToAddress l (Sender (Body msg))) w1)))))"
    by (simp add: evs events_handleSecretsSet sent_append secretsSetResponse_events)
qed

lemma HandleGatewayMessage_list:
  assumes "Allow (allowlist h) (HexToAddress l (Sender (Body msg))) w = (True, w1)"
      and "Method (Body msg) = methodSecretsList"
  shows "filter is_storage (events (HandleGatewayMessage l h ctx gatewayId msg w)) =
           [Call_List ctx (HexToAddress l (Sender (Body msg)))]"
    and "sent (events (HandleGatewayMessage l h ctx gatewayId msg w)) =
           sent (events (send_and_log l h ctx gatewayId (Body msg)
             (ListResponse_of (fst (secretsListResponse h ctx
                (HexToAddress l (Sender (Body msg))) w1)))
             (fst (snd (secretsListResponse h ctx
                (HexToAddress l (Sender (Body msg))) w1)))))"
proof -
  have evs: "events (HandleGatewayMessage l h ctx gatewayId msg w) =
     [Call_Allow (HexToAddress l (Sender (Body msg))),
      Log_Debugw ''handling gateway request''
        [(''id'', Str gatewayId), (''method'', Str (Method (Body msg)))]] @
     events (handleSecretsList l h ctx gatewayId (Body msg)
               (HexToAddress l (Sender (Body msg))) w1)"
    using assms(2) by (simp add: events_HandleGatewayMessage_allowed [OF assms(1)])
  show "filter is_storage (events (HandleGatewayMessage l h ctx gatewayId msg w)) =
           [Call_List ctx (HexToAddress l (Sender (Body msg)))]"
    by (simp add: evs events_handleSecretsList send_and_log_no_storage
        secretsListResponse_events)
  show "sent (events (HandleGatewayMessage l h ctx gatewayId msg w)) =
           sent (events (send_and_log l h ctx gatewayId (Body msg)
             (ListResponse_of (fst (secretsListResponse h ctx
                (HexToAddress l (Sender (Body msg))) w1)))
             (fst (snd (secretsListResponse h ctx
                (HexToAddress l (Sender (Body msg))) w1)))))"
    by (simp add: evs events_handleSecretsList sent_append secretsListResponse_events)
qed

lemma list_rows_map:
  "list_rows snapshot =
     map (\<lambda>row. \<lparr>ListRow.SlotID = SnapshotRow.SlotId row,
                  ListRow.Version = SnapshotRow.Version row,
                  ListRow.Expiration = SnapshotRow.Expiration row\<rparr>) snapshot"
  by (induction snapshot) simp_all

lemma list_rows_truncate:
  "list_rows (map SnapshotRow.truncate snapshot) = list_rows snapshot"
  by (induction snapshot) (simp_all add: SnapshotRow.truncate_def)

lemma sent_HandleGatewayMessage:
  assumes "m \<in> set (sent (events (HandleGatewayMessage l h ctx gatewayId msg w)))"
  shows "\<exists>p w'. m \<in> set (sent (events (send_and_log l h ctx gatewayId (Body msg) p w')))"
proof (cases "Allow (allowlist h) (HexToAddress l (Sender (Body msg))) w")
  case (Pair b w1)
  show ?thesis
  proof (cases b)
    case False
    with Pair assms show ?thesis
      by (simp add: HandleGatewayMessage_def events_def Let_def)
  next
    case True
    with Pair have al: "Allow (allowlist h) (HexToAddress l (Sender (Body msg))) w = (True, w1)"
      by simp
    consider (lst) "Method (Body msg) = methodSecretsList"
      | (set) "Method (Body msg) = methodSecretsSet"
      | (other) "Method (Body msg) \<noteq> methodSecretsList" "Method (Body msg) \<noteq> methodSecretsSet"
      by blast
    then show ?thesis
    proof cases
      case lst
      from assms show ?thesis
        unfolding HandleGatewayMessage_list(2) [OF al lst] by blast
    next
      case set
      from assms show ?thesis
        unfolding HandleGatewayMessage_set(2) [OF al set] by blast
    next
      case other
      with assms show ?thesis
        by (simp add: events_HandleGatewayMessage_allowed [OF al])
    qed
  qed
qed




subsection \<open>Runs of the test configuration\<close>

lemmas run_defs =
  HandleGatewayMessage_def handleSecretsList_def handleSecretsSet_def secretsListResponse_def
  secretsSetResponse_def send_and_log_def sendResponse_def response_message_def
  Message_Sign_def events_def Let_def

lemma test_list_run:
  "sent (events (HandleGatewayMessage test_lib test_handler 7 ''gw''
         (test_message ''0x01'' ''secrets_list'' []) test_world))
     = [\<lparr>Message.Signature = [5, 1, 2],
         Body = \<lparr>MessageId = ''m1'', Method = ''secrets_list'', DonId = ''don'',
                  Sender = ''0xnode'', MessageBody.Payload = [1, 2]\<rparr>\<rparr>]"
  by (simp add: run_defs test_defs)

lemma test_malformed_run:
  "events (HandleGatewayMessage test_lib test_handler 7 ''gw''
         (test_message ''zz'' ''secrets_list'' []) test_world)
     = [Call_Allow 0,
        Log_Debugw ''handling gateway request''
          [(''id'', Str ''gw''), (''method'', Str ''secrets_list'')],
        Call_List 7 0,
        Call_SendToGateway 7 ''gw''
          \<lparr>Message.Signature = [5, 1, 0],
           Body = \<lparr>MessageId = ''m1'', Method = ''secrets_list'', DonId = ''don'',
                    Sender = ''0xnode'', MessageBody.Payload = [1, 0]\<rparr>\<rparr>,
        Log_Debugw ''sent to gateway''
          [(''id'', Str ''gw''), (''messageId'', Str ''m1''), (''donId'', Str ''don''),
           (''method'', Str ''secrets_list'')]]"
  by (simp add: run_defs test_defs)


subsection \<open>Facts about the lifecycle\<close>

lemma Start_handler_Unstarted:
  assumes "once h = Unstarted"
  shows "Start_handler h ctx w =
     (case Start (allowlist h) ctx w of
        (None, w') \<Rightarrow> ((h\<lparr>once := Started\<rparr>, None), w', [Call_Start ctx])
      | (Some e, w') \<Rightarrow> ((h\<lparr>once := StartFailed\<rparr>, Some e), w', [Call_Start ctx]))"
  using assms
  by (simp add: Start_handler_def StartOnce_def split: prod.splits option.splits)

lemma Start_handler_other:
  assumes "once h \<noteq> Unstarted"
  shows "Start_handler h ctx w =
     ((h, Some ''FunctionsConnectorHandler has already been started once''), w, [])"
  using assms by (simp add: Start_handler_def StartOnce_def)

lemma Close_handler_Started:
  assumes "once h = Started"
  shows "Close_handler h w =
     (case Close (allowlist h) w of (err, w') \<Rightarrow> ((h\<lparr>once := Stopped\<rparr>, err), w', [Call_Close]))"
  using assms
  by (simp add: Close_handler_def StopOnce_def split: prod.splits)

lemma Close_handler_other:
  assumes "once h \<noteq> Started"
  shows "Close_handler h w = ((h, Some ''FunctionsConnectorHandler is not started''), w, [])"
  using assms by (simp add: Close_handler_def StopOnce_def)

lemma run_lifecycle_inv:
  "(once h = Unstarted \<longrightarrow>
      (\<exists>c. prefix (events (run_lifecycle h cs w)) [Call_Start c, Call_Close]))
   \<and> (once h = Started \<longrightarrow> prefix (events (run_lifecycle h cs w)) [Call_Close])
   \<and> (once h = StartFailed \<or> once h = Stopped \<longrightarrow> events (run_lifecycle h cs w) = [])"
proof (induction cs arbitrary: h w)
  case Nil
  show ?case by (simp add: events_def)
next
  case (Cons call cs)
  show ?case
  proof (cases call)
    case (DoStart ctx)
    show ?thesis
    proof (cases "once h = Unstarted")
      case True
      obtain err w' where st: "Start (allowlist h) ctx w = (err, w')"
        by (cases "Start (allowlist h) ctx w")
      show ?thesis
      proof (cases err)
        case None
        with st True DoStart have
          "events (run_lifecycle h (call # cs) w) =
             Call_Start ctx # events (run_lifecycle (h\<lparr>once := Started\<rparr>) cs w')"
          by (simp add: Start_handler_Unstarted events_def split: prod.splits)
        moreover from Cons.IH [of "h\<lparr>once := Started\<rparr>" w']
        have "prefix (events (run_lifecycle (h\<lparr>once := Started\<rparr>) cs w')) [Call_Close]"
          by simp
        ultimately show ?thesis using True by auto
      next
        case (Some e)
        with st True DoStart have
          "events (run_lifecycle h (call # cs) w) =
             Call_Start ctx # events (run_lifecycle (h\<lparr>once := StartFailed\<rparr>) cs w')"
          by (simp add: Start_handler_Unstarted events_def split: prod.splits)
        moreover from Cons.IH [of "h\<lparr>once := StartFailed\<rparr>" w']
        have "events (run_lifecycle (h\<lparr>once := StartFailed\<rparr>) cs w') = []"
          by simp
        ultimately show ?thesis using True by auto
      qed
    next
      case False
      with DoStart have
        "events (run_lifecycle h (call # cs) w) = events (run_lifecycle h cs w)"
        by (simp add: Start_handler_other events_def split: prod.splits)
      with Cons.IH [of h w] show ?thesis by simp
    qed
  next
    case DoClose
    show ?thesis
    proof (cases "once h = Started")
      case True
      obtain err w' where cl: "Close (allowlist h) w = (err, w')"
        by (cases "Close (allowlist h) w")
      with True DoClose have
        "events (run_lifecycle h (call # cs) w) =
           Call_Close # events (run_lifecycle (h\<lparr>once := Stopped\<rparr>) cs w')"
        by (simp add: Close_handler_Started events_def split: prod.splits)
      moreover from Cons.IH [of "h\<lparr>once := Stopped\<rparr>" w']
      have "events (run_lifecycle (h\<lparr>once := Stopped\<rparr>) cs w') = []"
        by simp
      ultimately show ?thesis using True by simp
    next
      case False
      with DoClose have
        "events (run_lifecycle h (call # cs) w) = events (run_lifecycle h cs w)"
        by (simp add: Close_handler_other events_def split: prod.splits)
      with Cons.IH [of h w] show ?thesis by simp
    qed
  qed
qed

lemma prefix_start_close_counts:
  assumes "prefix evs [Call_Start c, Call_Close]"
  shows "length (filter is_start evs) \<le> 1 \<and> length (filter is_close evs) \<le> 1"
proof -
  from assms have "evs = [] \<or> evs = [Call_Start c] \<or> evs = [Call_Start c, Call_Close]"
    by (auto simp add: prefix_Cons prefix_def Cons_eq_append_conv)
  then show ?thesis by auto
qed

lemma test_lifecycle_run:
  "events (run_lifecycle test_handler
      [DoClose, DoStart 7, DoStart 8, DoClose, DoClose, DoStart 9] test_world)
   = [Call_Start 7, Call_Close]"
  by (simp add: Start_handler_def Close_handler_def StartOnce_def StopOnce_def events_def
      test_defs)

subsection \<open>Admission\<close>

text \<open>
  C1: when the allowlist does not admit the sender's address, \<open>HandleGatewayMessage\<close>
  logs the rejection and returns: it makes no call of \<open>SendToGateway\<close> and no call on the
  storage, whatever the method and the payload of the message are.
\<close>

theorem rejected_sender_is_silent:
  assumes "fst (Allow (allowlist h) (HexToAddress l (Sender (Body msg))) w) = False"
  shows "HandleGatewayMessage l h ctx gatewayId msg w =
           (Returned (), snd (Allow (allowlist h) (HexToAddress l (Sender (Body msg))) w),
            [Call_Allow (HexToAddress l (Sender (Body msg))),
             Log_Errorw ''allowlist prevented the request from this address''
               [(''id'', Str gatewayId),
                (''address'', Addr (HexToAddress l (Sender (Body msg))))]])
         \<and> filter is_send (events (HandleGatewayMessage l h ctx gatewayId msg w)) = []
         \<and> filter is_storage (events (HandleGatewayMessage l h ctx gatewayId msg w)) = []"
  using assms
  by (cases "Allow (allowlist h) (HexToAddress l (Sender (Body msg))) w")
     (simp add: HandleGatewayMessage_def events_def Let_def)

theorem rejected_sender_is_silent_witness:
  "fst (Allow (allowlist test_handler)
          (HexToAddress test_lib (Sender (Body (test_message ''0x02'' ''secrets_set'' [1]))))
          test_world) = False
   \<and> filter is_send (events (HandleGatewayMessage test_lib test_handler 7 ''gw''
         (test_message ''0x02'' ''secrets_set'' [1]) test_world)) = []
   \<and> filter is_storage (events (HandleGatewayMessage test_lib test_handler 7 ''gw''
         (test_message ''0x02'' ''secrets_set'' [1]) test_world)) = []"
proof -
  have a: "fst (Allow (allowlist test_handler)
          (HexToAddress test_lib (Sender (Body (test_message ''0x02'' ''secrets_set'' [1]))))
          test_world) = False"
    by (simp add: test_handler_def SetConnector_def NewFunctionsConnectorHandler_def
        test_allowlist_def test_lib_def test_message_def)
  from rejected_sender_is_silent [OF a] a show ?thesis by blast
qed

subsection \<open>Setting a secret\<close>

text \<open>
  C2: for an admitted \<open>secrets_set\<close> request whose payload decodes to a request, the only
  storage call is one \<open>Put\<close>, with the key made of the sender's address, the slot and the
  version, the record made of the expiration and the payload, and the request's signature
  as it was decoded. When that \<open>Put\<close> returns no error the response is success with an
  empty error message: every message submitted carries its serialization, and exactly one
  message is submitted when the connector is set and serializing and signing succeed.
\<close>

theorem secrets_set_writes_once:
  assumes "Allow (allowlist h) (HexToAddress l (Sender (Body msg))) w = (True, w1)"
      and "Method (Body msg) = methodSecretsSet"
      and "json_Unmarshal l (MessageBody.Payload (Body msg)) = Inr request"
  shows "let fromAddr = HexToAddress l (Sender (Body msg));
             key = \<lparr>Address = fromAddr, Key.SlotId = SetRequest.SlotID request,
                    Key.Version = SetRequest.Version request\<rparr>;
             record = \<lparr>Record.Expiration = SetRequest.Expiration request,
                       Record.Payload = SetRequest.Payload request\<rparr>;
             ok = \<lparr>SetResponse.Success = True, SetResponse.ErrorMessage = []\<rparr>;
             evs = events (HandleGatewayMessage l h ctx gatewayId msg w)
         in filter is_storage evs = [Call_Put ctx key record (SetRequest.Signature request)]
          \<and> (fst (Put (storage h) ctx key record (SetRequest.Signature request) w1) = None \<longrightarrow>
               fst (secretsSetResponse l h ctx (Body msg) fromAddr w1) = ok
             \<and> (\<forall>m \<in> set (sent evs).
                  json_Marshal l (SetResponse_of ok) = Inr (MessageBody.Payload (Body m)))
             \<and> (connector h \<noteq> None
                \<and> (\<exists>p. json_Marshal l (SetResponse_of ok) = Inr p)
                \<and> (\<forall>b. \<exists>s. SignBody l (signerKey h) b = Inr s)
                \<longrightarrow> length (sent evs) = 1))"
proof -
  let ?a = "HexToAddress l (Sender (Body msg))"
  let ?key = "\<lparr>Address = ?a, Key.SlotId = SetRequest.SlotID request,
                    Key.Version = SetRequest.Version request\<rparr>"
  let ?rec = "\<lparr>Record.Expiration = SetRequest.Expiration request,
                       Record.Payload = SetRequest.Payload request\<rparr>"
  let ?ok = "\<lparr>SetResponse.Success = True, SetResponse.ErrorMessage = []\<rparr>"
  let ?evs = "events (HandleGatewayMessage l h ctx gatewayId msg w)"
  let ?R = "secretsSetResponse l h ctx (Body msg) ?a w1"
  note H = HandleGatewayMessage_set [OF assms(1,2), of ctx gatewayId]
  have resp_evs: "events ?R = [Call_Put ctx ?key ?rec (SetRequest.Signature request)]"
    using assms(3)
    by (simp add: secretsSetResponse_def events_def Let_def split: prod.splits option.splits)
  have storage: "filter is_storage ?evs = [Call_Put ctx ?key ?rec (SetRequest.Signature request)]"
    by (simp only: H(1) resp_evs)
  have ok: "fst ?R = ?ok"
    if "fst (Put (storage h) ctx ?key ?rec (SetRequest.Signature request) w1) = None"
    using assms(3) that
    by (auto simp add: secretsSetResponse_def Let_def split: prod.splits option.splits)
  have payload: "\<forall>m \<in> set (sent ?evs).
      json_Marshal l (SetResponse_of ?ok) = Inr (MessageBody.Payload (Body m))"
    if put_ok: "fst (Put (storage h) ctx ?key ?rec (SetRequest.Signature request) w1) = None"
    using send_and_log_payload [of _ l h ctx gatewayId "Body msg" "SetResponse_of ?ok" "fst (snd ?R)"]
    by (simp add: H(2) ok [OF put_ok])
  have one: "length (sent ?evs) = 1"
    if "fst (Put (storage h) ctx ?key ?rec (SetRequest.Signature request) w1) = None"
      and "connector h \<noteq> None" and "\<exists>p. json_Marshal l (SetResponse_of ?ok) = Inr p"
      and "\<forall>b. \<exists>s. SignBody l (signerKey h) b = Inr s"
    using send_and_log_one [OF that(2,3,4), of ctx gatewayId "Body msg" "fst (snd ?R)"]
    by (simp add: H(2) ok [OF that(1)])
  show ?thesis
    unfolding Let_def using storage ok payload one by blast
qed

theorem secrets_set_writes_once_witness:
  "Allow (allowlist test_handler)
     (HexToAddress test_lib (Sender (Body (test_message ''0x01'' ''secrets_set'' [1]))))
     test_world = (True, test_world)
   \<and> Method (Body (test_message ''0x01'' ''secrets_set'' [1])) = methodSecretsSet
   \<and> json_Unmarshal test_lib (MessageBody.Payload (Body (test_message ''0x01'' ''secrets_set'' [1])))
       = Inr \<lparr>SetRequest.SlotID = 3, SetRequest.Version = 1, SetRequest.Expiration = 100,
              SetRequest.Payload = [7, 7], SetRequest.Signature = [9]\<rparr>
   \<and> filter is_storage (events (HandleGatewayMessage test_lib test_handler 7 ''gw''
         (test_message ''0x01'' ''secrets_set'' [1]) test_world))
       = [Call_Put 7 \<lparr>Address = 1, Key.SlotId = 3, Key.Version = 1\<rparr>
            \<lparr>Record.Expiration = 100, Record.Payload = [7, 7]\<rparr> [9]]
   \<and> length (sent (events (HandleGatewayMessage test_lib test_handler 7 ''gw''
         (test_message ''0x01'' ''secrets_set'' [1]) test_world))) = 1
   \<and> map (\<lambda>m. MessageBody.Payload (Body m))
         (sent (events (HandleGatewayMessage test_lib test_handler 7 ''gw''
           (test_message ''0x01'' ''secrets_set'' [1]) test_world)))
       = [[1]]
   \<and> json_Marshal test_lib (SetResponse_of
         \<lparr>SetResponse.Success = True, SetResponse.ErrorMessage = []\<rparr>) = Inr [1]"
proof -
  have a: "Allow (allowlist test_handler)
     (HexToAddress test_lib (Sender (Body (test_message ''0x01'' ''secrets_set'' [1]))))
     test_world = (True, test_world)"
    by (simp add: test_defs)
  have b: "Method (Body (test_message ''0x01'' ''secrets_set'' [1])) = methodSecretsSet"
    by (simp add: test_defs)
  have c: "json_Unmarshal test_lib
      (MessageBody.Payload (Body (test_message ''0x01'' ''secrets_set'' [1])))
       = Inr \<lparr>SetRequest.SlotID = 3, SetRequest.Version = 1, SetRequest.Expiration = 100,
              SetRequest.Payload = [7, 7], SetRequest.Signature = [9]\<rparr>"
    by (simp add: test_defs)
  have d: "HexToAddress test_lib (Sender (Body (test_message ''0x01'' ''secrets_set'' [1]))) = 1"
    by (simp add: test_defs)
  have e: "fst (Put (storage test_handler) 7 \<lparr>Address = 1, Key.SlotId = 3, Key.Version = 1\<rparr>
            \<lparr>Record.Expiration = 100, Record.Payload = [7, 7]\<rparr> [9] test_world) = None"
    by (simp add: test_defs)
  have f: "connector test_handler \<noteq> None
     \<and> (\<exists>p. json_Marshal test_lib (SetResponse_of
           \<lparr>SetResponse.Success = True, SetResponse.ErrorMessage = []\<rparr>) = Inr p)
     \<and> (\<forall>b. \<exists>s. SignBody test_lib (signerKey test_handler) b = Inr s)"
    by (simp add: test_defs)
  have g: "json_Marshal test_lib (SetResponse_of
         \<lparr>SetResponse.Success = True, SetResponse.ErrorMessage = []\<rparr>) = Inr [1]"
    by (simp add: test_defs)
  let ?evs = "events (HandleGatewayMessage test_lib test_handler 7 ''gw''
           (test_message ''0x01'' ''secrets_set'' [1]) test_world)"
  from secrets_set_writes_once [OF a b c, of 7 "''gw''"] e f
  have st: "filter is_storage ?evs
       = [Call_Put 7 \<lparr>Address = 1, Key.SlotId = 3, Key.Version = 1\<rparr>
            \<lparr>Record.Expiration = 100, Record.Payload = [7, 7]\<rparr> [9]]"
    and len: "length (sent ?evs) = 1"
    and pl: "\<forall>m \<in> set (sent ?evs). Inr [1] = Inr (MessageBody.Payload (Body m))"
    by (simp_all add: Let_def d g)
  from len obtain m where m: "sent ?evs = [m]"
    by (cases "sent ?evs") simp_all
  with pl have "map (\<lambda>m. MessageBody.Payload (Body m)) (sent ?evs) = [[1]]"
    by simp
  with a b c st len g show ?thesis by simp
qed

text \<open>
  C3, as stated, asks for an error message of the form "bad request: ...". The message
  that the handler builds for a payload that does not decode begins with
  "Bad request to set secret: ".
\<close>

theorem bad_set_request_message_counterexample:
  "json_Unmarshal test_lib (MessageBody.Payload (Body (test_message ''0x01'' ''secrets_set'' [2])))
     = Inl ''invalid character''
   \<and> SetResponse.ErrorMessage (fst (secretsSetResponse test_lib test_handler 7
        (Body (test_message ''0x01'' ''secrets_set'' [2])) 1 test_world))
     = ''Bad request to set secret: invalid character''
   \<and> \<not> prefix ''bad request: '' (SetResponse.ErrorMessage (fst (secretsSetResponse test_lib
        test_handler 7 (Body (test_message ''0x01'' ''secrets_set'' [2])) 1 test_world)))"
  by (simp add: secretsSetResponse_def test_lib_def test_message_def)

text \<open>
  C3, amended: for an admitted \<open>secrets_set\<close> request whose payload does not decode, no
  storage call is made and the response is a failure whose error message, never empty, is
  "Bad request to set secret: " followed by the decoder's error; every message submitted
  carries its serialization, and exactly one message is submitted when the connector is
  set and serializing and signing succeed.
\<close>

theorem bad_set_request_answered:
  assumes "Allow (allowlist h) (HexToAddress l (Sender (Body msg))) w = (True, w1)"
      and "Method (Body msg) = methodSecretsSet"
      and "json_Unmarshal l (MessageBody.Payload (Body msg)) = Inl err"
  shows "let bad = \<lparr>SetResponse.Success = False,
                    SetResponse.ErrorMessage = ''Bad request to set secret: '' @ err\<rparr>;
             evs = events (HandleGatewayMessage l h ctx gatewayId msg w)
         in filter is_storage evs = []
          \<and> secretsSetResponse l h ctx (Body msg) (HexToAddress l (Sender (Body msg))) w1
              = (bad, w1, [])
          \<and> SetResponse.ErrorMessage bad \<noteq> []
          \<and> prefix ''Bad request to set secret: '' (SetResponse.ErrorMessage bad)
          \<and> (\<forall>m \<in> set (sent evs).
                json_Marshal l (SetResponse_of bad) = Inr (MessageBody.Payload (Body m)))
          \<and> (connector h \<noteq> None
              \<and> (\<exists>p. json_Marshal l (SetResponse_of bad) = Inr p)
              \<and> (\<forall>b. \<exists>s. SignBody l (signerKey h) b = Inr s)
              \<longrightarrow> length (sent evs) = 1)"
proof -
  let ?a = "HexToAddress l (Sender (Body msg))"
  let ?bad = "\<lparr>SetResponse.Success = False,
                SetResponse.ErrorMessage = ''Bad request to set secret: '' @ err\<rparr>"
  let ?evs = "events (HandleGatewayMessage l h ctx gatewayId msg w)"
  note H = HandleGatewayMessage_set [OF assms(1,2), of ctx gatewayId]
  have R: "secretsSetResponse l h ctx (Body msg) ?a w1 = (?bad, w1, [])"
    using assms(3) by (simp add: secretsSetResponse_def)
  have storage: "filter is_storage ?evs = []"
    using H(1) by (simp add: R events_def)
  have payload: "\<forall>m \<in> set (sent ?evs).
      json_Marshal l (SetResponse_of ?bad) = Inr (MessageBody.Payload (Body m))"
    using send_and_log_payload [of _ l h ctx gatewayId "Body msg" "SetResponse_of ?bad" w1]
    by (simp add: H(2) R)
  have one: "length (sent ?evs) = 1"
    if "connector h \<noteq> None" and "\<exists>p. json_Marshal l (SetResponse_of ?bad) = Inr p"
      and "\<forall>b. \<exists>s. SignBody l (signerKey h) b = Inr s"
    using send_and_log_one [OF that, of ctx gatewayId "Body msg" w1]
    by (simp add: H(2) R)
  show ?thesis
    unfolding Let_def using storage R payload one by simp
qed

theorem bad_set_request_answered_witness:
  "Allow (allowlist test_handler)
     (HexToAddress test_lib (Sender (Body (test_message ''0x01'' ''secrets_set'' [2]))))
     test_world = (True, test_world)
   \<and> Method (Body (test_message ''0x01'' ''secrets_set'' [2])) = methodSecretsSet
   \<and> json_Unmarshal test_lib (MessageBody.Payload (Body (test_message ''0x01'' ''secrets_set'' [2])))
       = Inl ''invalid character''
   \<and> filter is_storage (events (HandleGatewayMessage test_lib test_handler 7 ''gw''
         (test_message ''0x01'' ''secrets_set'' [2]) test_world)) = []
   \<and> length (sent (events (HandleGatewayMessage test_lib test_handler 7 ''gw''
         (test_message ''0x01'' ''secrets_set'' [2]) test_world))) = 1
   \<and> map (\<lambda>m. MessageBody.Payload (Body m))
         (sent (events (HandleGatewayMessage test_lib test_handler 7 ''gw''
           (test_message ''0x01'' ''secrets_set'' [2]) test_world)))
       = [[0]]
   \<and> json_Marshal test_lib (SetResponse_of
         \<lparr>SetResponse.Success = False,
          SetResponse.ErrorMessage = ''Bad request to set secret: invalid character''\<rparr>)
       = Inr [0]"
proof -
  have a: "Allow (allowlist test_handler)
     (HexToAddress test_lib (Sender (Body (test_message ''0x01'' ''secrets_set'' [2]))))
     test_world = (True, test_world)"
    by (simp add: test_defs)
  have b: "Method (Body (test_message ''0x01'' ''secrets_set'' [2])) = methodSecretsSet"
    by (simp add: test_defs)
  have c: "json_Unmarshal test_lib
      (MessageBody.Payload (Body (test_message ''0x01'' ''secrets_set'' [2])))
       = Inl ''invalid character''"
    by (simp add: test_defs)
  have f: "connector test_handler \<noteq> None
     \<and> (\<exists>p. json_Marshal test_lib (SetResponse_of
           \<lparr>SetResponse.Success = False,
            SetResponse.ErrorMessage = ''Bad request to set secret: invalid character''\<rparr>) = Inr p)
     \<and> (\<forall>b. \<exists>s. SignBody test_lib (signerKey test_handler) b = Inr s)"
    by (simp add: test_defs)
  have g: "json_Marshal test_lib (SetResponse_of
         \<lparr>SetResponse.Success = False,
          SetResponse.ErrorMessage = ''Bad request to set secret: invalid character''\<rparr>)
       = Inr [0]"
    by (simp add: test_defs)
  let ?evs = "events (HandleGatewayMessage test_lib test_handler 7 ''gw''
           (test_message ''0x01'' ''secrets_set'' [2]) test_world)"
  from bad_set_request_answered [OF a b c, of 7 "''gw''"] f
  have st: "filter is_storage ?evs = []"
    and len: "length (sent ?evs) = 1"
    and pl: "\<forall>m \<in> set (sent ?evs). Inr [0] = Inr (MessageBody.Payload (Body m))"
    by (simp_all add: Let_def g)
  from len obtain m where m: "sent ?evs = [m]"
    by (cases "sent ?evs") simp_all
  with pl have "map (\<lambda>m. MessageBody.Payload (Body m)) (sent ?evs) = [[0]]"
    by simp
  with a b c st len g show ?thesis by simp
qed

subsection \<open>Listing secrets\<close>

text \<open>
  C4: for an admitted \<open>secrets_list\<close> request whose \<open>storage.List\<close> returns a snapshot, the
  response is success with an empty error message and one row per snapshot row, in the
  snapshot's order, holding that row's slot, version and expiration. The rows are those of
  the snapshot with every other field of its rows erased, so nothing else that a stored
  row holds can reach the response. Every message submitted carries the serialization of
  this response, and exactly one is submitted when the connector is set and serializing
  and signing succeed.
\<close>

theorem secrets_list_projects_rows:
  assumes "Allow (allowlist h) (HexToAddress l (Sender (Body msg))) w = (True, w1)"
      and "Method (Body msg) = methodSecretsList"
      and "List (storage h) ctx (HexToAddress l (Sender (Body msg))) w1 = (Inr snapshot, w2)"
  shows "let rows = map (\<lambda>row. \<lparr>ListRow.SlotID = SnapshotRow.SlotId row,
                                 ListRow.Version = SnapshotRow.Version row,
                                 ListRow.Expiration = SnapshotRow.Expiration row\<rparr>) snapshot;
             response = \<lparr>ListResponse.Success = True, ListResponse.ErrorMessage = [],
                         Rows = rows\<rparr>;
             evs = events (HandleGatewayMessage l h ctx gatewayId msg w)
         in fst (secretsListResponse h ctx (HexToAddress l (Sender (Body msg))) w1) = response
          \<and> rows = list_rows (map SnapshotRow.truncate snapshot)
          \<and> (\<forall>m \<in> set (sent evs).
                json_Marshal l (ListResponse_of response) = Inr (MessageBody.Payload (Body m)))
          \<and> (connector h \<noteq> None
              \<and> (\<exists>p. json_Marshal l (ListResponse_of response) = Inr p)
              \<and> (\<forall>b. \<exists>s. SignBody l (signerKey h) b = Inr s)
              \<longrightarrow> length (sent evs) = 1)"
proof -
  let ?a = "HexToAddress l (Sender (Body msg))"
  let ?rows = "map (\<lambda>row. \<lparr>ListRow.SlotID = SnapshotRow.SlotId row,
                                 ListRow.Version = SnapshotRow.Version row,
                                 ListRow.Expiration = SnapshotRow.Expiration row\<rparr>) snapshot"
  let ?resp = "\<lparr>ListResponse.Success = True, ListResponse.ErrorMessage = [], Rows = ?rows\<rparr>"
  let ?evs = "events (HandleGatewayMessage l h ctx gatewayId msg w)"
  note H = HandleGatewayMessage_list [OF assms(1,2), of ctx gatewayId]
  have R: "secretsListResponse h ctx ?a w1 = (?resp, w2, [Call_List ctx ?a])"
    using assms(3) by (simp add: secretsListResponse_def list_rows_map)
  have trunc: "?rows = list_rows (map SnapshotRow.truncate snapshot)"
  proof -
    have "?rows = list_rows snapshot" by (simp only: list_rows_map)
    also have "\<dots> = list_rows (map SnapshotRow.truncate snapshot)"
      by (simp only: list_rows_truncate)
    finally show ?thesis .
  qed
  have payload: "\<forall>m \<in> set (sent ?evs).
      json_Marshal l (ListResponse_of ?resp) = Inr (MessageBody.Payload (Body m))"
    using send_and_log_payload [of _ l h ctx gatewayId "Body msg" "ListResponse_of ?resp" w2]
    by (simp add: H(2) R)
  have one: "length (sent ?evs) = 1"
    if "connector h \<noteq> None" and "\<exists>p. json_Marshal l (ListResponse_of ?resp) = Inr p"
      and "\<forall>b. \<exists>s. SignBody l (signerKey h) b = Inr s"
    using send_and_log_one [OF that, of ctx gatewayId "Body msg" w2]
    by (simp add: H(2) R)
  show ?thesis
    unfolding Let_def using R trunc payload one by simp
qed

theorem secrets_list_projects_rows_witness:
  "Allow (allowlist test_handler)
     (HexToAddress test_lib (Sender (Body (test_message ''0x01'' ''secrets_list'' []))))
     test_world = (True, test_world)
   \<and> Method (Body (test_message ''0x01'' ''secrets_list'' [])) = methodSecretsList
   \<and> List (storage test_handler) 7
        (HexToAddress test_lib (Sender (Body (test_message ''0x01'' ''secrets_list'' []))))
        test_world
       = (Inr [\<lparr>SnapshotRow.SlotId = 1, SnapshotRow.Version = 2, SnapshotRow.Expiration = 100,
                 Stored = [4, 2]\<rparr>,
               \<lparr>SnapshotRow.SlotId = 2, SnapshotRow.Version = 1, SnapshotRow.Expiration = 200,
                 Stored = [4, 3]\<rparr>], test_world)
   \<and> fst (secretsListResponse test_handler 7 1 test_world)
       = \<lparr>ListResponse.Success = True, ListResponse.ErrorMessage = [],
          Rows = [\<lparr>ListRow.SlotID = 1, ListRow.Version = 2, ListRow.Expiration = 100\<rparr>,
                  \<lparr>ListRow.SlotID = 2, ListRow.Version = 1, ListRow.Expiration = 200\<rparr>]\<rparr>
   \<and> length (sent (events (HandleGatewayMessage test_lib test_handler 7 ''gw''
         (test_message ''0x01'' ''secrets_list'' []) test_world))) = 1"
proof -
  have a: "Allow (allowlist test_handler)
     (HexToAddress test_lib (Sender (Body (test_message ''0x01'' ''secrets_list'' []))))
     test_world = (True, test_world)"
    by (simp add: test_defs)
  have b: "Method (Body (test_message ''0x01'' ''secrets_list'' [])) = methodSecretsList"
    by (simp add: test_defs)
  have c: "List (storage test_handler) 7
        (HexToAddress test_lib (Sender (Body (test_message ''0x01'' ''secrets_list'' []))))
        test_world
       = (Inr [\<lparr>SnapshotRow.SlotId = 1, SnapshotRow.Version = 2, SnapshotRow.Expiration = 100,
                 Stored = [4, 2]\<rparr>,
               \<lparr>SnapshotRow.SlotId = 2, SnapshotRow.Version = 1, SnapshotRow.Expiration = 200,
                 Stored = [4, 3]\<rparr>], test_world)"
    by (simp add: test_defs)
  have d: "HexToAddress test_lib (Sender (Body (test_message ''0x01'' ''secrets_list'' []))) = 1"
    by (simp add: test_defs)
  have f: "connector test_handler \<noteq> None
     \<and> (\<forall>p. \<exists>b. json_Marshal test_lib p = Inr b)
     \<and> (\<forall>b. \<exists>s. SignBody test_lib (signerKey test_handler) b = Inr s)"
    by (simp add: test_defs split: payload.splits)
  from secrets_list_projects_rows [OF a b c, of "''gw''"] a b c f show ?thesis
    by (simp add: Let_def d)
qed

subsection \<open>Unknown methods\<close>

text \<open>
  C6: for a message whose method is neither \<open>secrets_list\<close> nor \<open>secrets_set\<close>, the handler
  returns after the allowlist query and its log entries: no message is submitted and no
  storage call is made. For an admitted sender the last entry is the error log
  "unsupported method".
\<close>

theorem unknown_method_is_dropped:
  assumes "Method (Body msg) \<noteq> methodSecretsList"
      and "Method (Body msg) \<noteq> methodSecretsSet"
  shows "fst (HandleGatewayMessage l h ctx gatewayId msg w) = Returned ()
       \<and> list_all (\<lambda>e. is_log e \<or> e = Call_Allow (HexToAddress l (Sender (Body msg))))
           (events (HandleGatewayMessage l h ctx gatewayId msg w))
       \<and> filter is_log (events (HandleGatewayMessage l h ctx gatewayId msg w)) \<noteq> []
       \<and> filter is_send (events (HandleGatewayMessage l h ctx gatewayId msg w)) = []
       \<and> filter is_storage (events (HandleGatewayMessage l h ctx gatewayId msg w)) = []
       \<and> (fst (Allow (allowlist h) (HexToAddress l (Sender (Body msg))) w) \<longrightarrow>
            last (events (HandleGatewayMessage l h ctx gatewayId msg w)) =
              Log_Errorw ''unsupported method''
                [(''id'', Str gatewayId), (''method'', Str (Method (Body msg)))])"
  using assms
  by (cases "Allow (allowlist h) (HexToAddress l (Sender (Body msg))) w")
     (simp add: HandleGatewayMessage_def events_def Let_def split: bool.splits)

theorem unknown_method_is_dropped_witness:
  "Method (Body (test_message ''zz'' ''secrets_get'' [1])) \<noteq> methodSecretsList
   \<and> Method (Body (test_message ''zz'' ''secrets_get'' [1])) \<noteq> methodSecretsSet
   \<and> fst (Allow (allowlist test_handler)
        (HexToAddress test_lib (Sender (Body (test_message ''zz'' ''secrets_get'' [1]))))
        test_world)
   \<and> filter is_send (events (HandleGatewayMessage test_lib test_handler 7 ''gw''
         (test_message ''zz'' ''secrets_get'' [1]) test_world)) = []
   \<and> filter is_storage (events (HandleGatewayMessage test_lib test_handler 7 ''gw''
         (test_message ''zz'' ''secrets_get'' [1]) test_world)) = []
   \<and> last (events (HandleGatewayMessage test_lib test_handler 7 ''gw''
         (test_message ''zz'' ''secrets_get'' [1]) test_world))
       = Log_Errorw ''unsupported method'' [(''id'', Str ''gw''), (''method'', Str ''secrets_get'')]"
proof -
  have a: "Method (Body (test_message ''zz'' ''secrets_get'' [1])) \<noteq> methodSecretsList"
    by (simp add: test_defs)
  have b: "Method (Body (test_message ''zz'' ''secrets_get'' [1])) \<noteq> methodSecretsSet"
    by (simp add: test_defs)
  have c: "fst (Allow (allowlist test_handler)
        (HexToAddress test_lib (Sender (Body (test_message ''zz'' ''secrets_get'' [1]))))
        test_world)"
    by (simp add: test_defs)
  have d: "Method (Body (test_message ''zz'' ''secrets_get'' [1])) = ''secrets_get''"
    by (simp add: test_defs)
  from unknown_method_is_dropped [OF a b, of test_lib test_handler 7 "''gw''" test_world] a b c d
  show ?thesis by simp
qed

subsection \<open>The response envelope\<close>

text \<open>
  C5: every message that \<open>HandleGatewayMessage\<close> submits to the transport has the message
  id, the DON id and the method of the request and the node's own address as its sender,
  and its signature is what signing its body with the node's key gives. Provided that a
  signature made with the node's private key verifies against the public key of that key,
  the verification of the submitted message against the node's public key succeeds.
\<close>

theorem response_envelope_fields:
  assumes "\<forall>body s. SignBody l (signerKey h) body = Inr s
             \<longrightarrow> VerifyBody l (PublicKey (signerKey h)) body s"
  shows "\<forall>m \<in> set (sent (events (HandleGatewayMessage l h ctx gatewayId msg w))).
           MessageId (Body m) = MessageId (Body msg)
         \<and> DonId (Body m) = DonId (Body msg)
         \<and> Method (Body m) = Method (Body msg)
         \<and> Sender (Body m) = nodeAddress h
         \<and> SignBody l (signerKey h) (Body m) = Inr (Message.Signature m)
         \<and> Message_Verify l (PublicKey (signerKey h)) m"
proof
  fix m assume "m \<in> set (sent (events (HandleGatewayMessage l h ctx gatewayId msg w)))"
  from sent_HandleGatewayMessage [OF this] obtain p w' where
    "m \<in> set (sent (events (send_and_log l h ctx gatewayId (Body msg) p w')))" by blast
  from send_and_log_sent_elem [OF this] obtain pj where
    m: "Message_Sign l (signerKey h) (response_message h (Body msg) pj) = Inr m" by blast
  from Message_Sign_Inr [OF m]
  have body: "Body m = Body (response_message h (Body msg) pj)"
    and sg: "SignBody l (signerKey h) (Body (response_message h (Body msg) pj))
               = Inr (Message.Signature m)"
    by simp_all
  from sg assms have "VerifyBody l (PublicKey (signerKey h))
      (Body (response_message h (Body msg) pj)) (Message.Signature m)" by blast
  with body sg show "MessageId (Body m) = MessageId (Body msg)
         \<and> DonId (Body m) = DonId (Body msg)
         \<and> Method (Body m) = Method (Body msg)
         \<and> Sender (Body m) = nodeAddress h
         \<and> SignBody l (signerKey h) (Body m) = Inr (Message.Signature m)
         \<and> Message_Verify l (PublicKey (signerKey h)) m"
    by (simp add: Message_Verify_def response_message_def)
qed

theorem response_envelope_fields_witness:
  "sent (events (HandleGatewayMessage test_lib test_handler 7 ''gw''
         (test_message ''0x01'' ''secrets_list'' []) test_world))
     = [\<lparr>Message.Signature = [5, 1, 2],
         Body = \<lparr>MessageId = ''m1'', Method = ''secrets_list'', DonId = ''don'',
                  Sender = ''0xnode'', MessageBody.Payload = [1, 2]\<rparr>\<rparr>]
   \<and> Message_Verify test_lib (PublicKey (signerKey test_handler))
        \<lparr>Message.Signature = [5, 1, 2],
         Body = \<lparr>MessageId = ''m1'', Method = ''secrets_list'', DonId = ''don'',
                  Sender = ''0xnode'', MessageBody.Payload = [1, 2]\<rparr>\<rparr>
   \<and> nodeAddress test_handler = ''0xnode''
   \<and> MessageId (Body (test_message ''0x01'' ''secrets_list'' [])) = ''m1''
   \<and> DonId (Body (test_message ''0x01'' ''secrets_list'' [])) = ''don''"
proof -
  have hyp: "\<forall>body s. SignBody test_lib (signerKey test_handler) body = Inr s
             \<longrightarrow> VerifyBody test_lib (PublicKey (signerKey test_handler)) body s"
    by (simp add: test_defs)
  have mem: "\<lparr>Message.Signature = [5, 1, 2],
         Body = \<lparr>MessageId = ''m1'', Method = ''secrets_list'', DonId = ''don'',
                  Sender = ''0xnode'', MessageBody.Payload = [1, 2]\<rparr>\<rparr>
      \<in> set (sent (events (HandleGatewayMessage test_lib test_handler 7 ''gw''
         (test_message ''0x01'' ''secrets_list'' []) test_world)))"
    by (simp add: test_list_run)
  from response_envelope_fields [OF hyp, of 7 "''gw''" "test_message ''0x01'' ''secrets_list'' []" test_world] mem
  have "Message_Verify test_lib (PublicKey (signerKey test_handler))
        \<lparr>Message.Signature = [5, 1, 2],
         Body = \<lparr>MessageId = ''m1'', Method = ''secrets_list'', DonId = ''don'',
                  Sender = ''0xnode'', MessageBody.Payload = [1, 2]\<rparr>\<rparr>"
    by blast
  then show ?thesis
    by (simp add: test_list_run) (simp add: test_defs)
qed

subsection \<open>Cancellation\<close>




subsection \<open>Lifecycle\<close>

text \<open>
  C8: \<open>Start\<close> on a handler that was never started calls the allowlist's \<open>Start\<close> once and
  returns its error; on any other handler it returns an error and changes nothing.
  \<open>Close\<close> on a started handler calls the allowlist's \<open>Close\<close> once and leaves the handler
  stopped; on any other handler it returns an error and changes nothing. Over any sequence
  of \<open>Start\<close> and \<open>Close\<close> calls on a new handler, the calls on the allowlist are a prefix
  of one \<open>Start\<close> followed by one \<open>Close\<close>, so each happens at most once.
\<close>

theorem lifecycle_transitions_once:
  "(once h = Unstarted \<longrightarrow>
      events (Start_handler h ctx w) = [Call_Start ctx]
    \<and> snd (fst (Start_handler h ctx w)) = fst (Start (allowlist h) ctx w)
    \<and> once (fst (fst (Start_handler h ctx w))) =
        (if fst (Start (allowlist h) ctx w) = None then Started else StartFailed))
   \<and> (once h \<noteq> Unstarted \<longrightarrow>
        (\<exists>e. Start_handler h ctx w = ((h, Some e), w, [])))
   \<and> (once h = Started \<longrightarrow>
        events (Close_handler h w) = [Call_Close]
      \<and> snd (fst (Close_handler h w)) = fst (Close (allowlist h) w)
      \<and> once (fst (fst (Close_handler h w))) = Stopped)
   \<and> (once h \<noteq> Started \<longrightarrow>
        (\<exists>e. Close_handler h w = ((h, Some e), w, [])))
   \<and> (once h = Unstarted \<longrightarrow>
        (\<exists>c. prefix (events (run_lifecycle h cs w)) [Call_Start c, Call_Close])
      \<and> length (filter is_start (events (run_lifecycle h cs w))) \<le> 1
      \<and> length (filter is_close (events (run_lifecycle h cs w))) \<le> 1)"
proof -
  have 1: "events (Start_handler h ctx w) = [Call_Start ctx]
    \<and> snd (fst (Start_handler h ctx w)) = fst (Start (allowlist h) ctx w)
    \<and> once (fst (fst (Start_handler h ctx w))) =
        (if fst (Start (allowlist h) ctx w) = None then Started else StartFailed)"
    if "once h = Unstarted"
    using that
    by (cases "Start (allowlist h) ctx w")
       (auto simp add: Start_handler_Unstarted events_def split: option.splits)
  have 2: "\<exists>e. Start_handler h ctx w = ((h, Some e), w, [])" if "once h \<noteq> Unstarted"
    using that by (simp add: Start_handler_other)
  have 3: "events (Close_handler h w) = [Call_Close]
      \<and> snd (fst (Close_handler h w)) = fst (Close (allowlist h) w)
      \<and> once (fst (fst (Close_handler h w))) = Stopped"
    if "once h = Started"
    using that
    by (cases "Close (allowlist h) w") (simp add: Close_handler_Started events_def)
  have 4: "\<exists>e. Close_handler h w = ((h, Some e), w, [])" if "once h \<noteq> Started"
    using that by (simp add: Close_handler_other)
  have 5: "(\<exists>c. prefix (events (run_lifecycle h cs w)) [Call_Start c, Call_Close])
      \<and> length (filter is_start (events (run_lifecycle h cs w))) \<le> 1
      \<and> length (filter is_close (events (run_lifecycle h cs w))) \<le> 1"
    if "once h = Unstarted"
  proof -
    from run_lifecycle_inv [of h cs w] that obtain c where
      c: "prefix (events (run_lifecycle h cs w)) [Call_Start c, Call_Close]" by blast
    from prefix_start_close_counts [OF c] c show ?thesis by blast
  qed
  from 1 2 3 4 5 show ?thesis by blast
qed

theorem lifecycle_transitions_once_witness:
  "once test_handler = Unstarted
   \<and> events (Start_handler test_handler 7 test_world) = [Call_Start 7]
   \<and> once (fst (fst (Start_handler test_handler 7 test_world))) = Started
   \<and> events (Start_handler (fst (fst (Start_handler test_handler 7 test_world))) 8 test_world) = []
   \<and> events (Close_handler (fst (fst (Start_handler test_handler 7 test_world))) test_world)
       = [Call_Close]
   \<and> events (Close_handler test_handler test_world) = []
   \<and> events (run_lifecycle test_handler
        [DoClose, DoStart 7, DoStart 8, DoClose, DoClose, DoStart 9] test_world)
       = [Call_Start 7, Call_Close]
   \<and> length (filter is_start (events (run_lifecycle test_handler
        [DoClose, DoStart 7, DoStart 8, DoClose, DoClose, DoStart 9] test_world))) \<le> 1"
proof -
  let ?h1 = "fst (fst (Start_handler test_handler 7 test_world))"
  have u: "once test_handler = Unstarted"
    by (simp add: test_defs)
  have ok: "fst (Start (allowlist test_handler) 7 test_world) = None"
    by (simp add: test_defs)
  from lifecycle_transitions_once [of test_handler 7 test_world "[]"] u ok
  have s1: "events (Start_handler test_handler 7 test_world) = [Call_Start 7]"
    and s2: "once ?h1 = Started"
    by simp_all
  from lifecycle_transitions_once [of test_handler 7 test_world "[]"] u
  have c0: "events (Close_handler test_handler test_world) = []"
    by (auto simp add: events_def)
  from lifecycle_transitions_once [of ?h1 8 test_world "[]"] s2
  have s3: "events (Start_handler ?h1 8 test_world) = []"
    and c1: "events (Close_handler ?h1 test_world) = [Call_Close]"
    by (auto simp add: events_def)
  from lifecycle_transitions_once [of test_handler 7 test_world
      "[DoClose, DoStart 7, DoStart 8, DoClose, DoClose, DoStart 9]"] u
  have n: "length (filter is_start (events (run_lifecycle test_handler
        [DoClose, DoStart 7, DoStart 8, DoClose, DoClose, DoStart 9] test_world))) \<le> 1"
    by blast
  from u s1 s2 s3 c1 c0 n test_lifecycle_run show ?thesis by blast
qed

subsection \<open>Failures of the response sender\<close>

text \<open>
  C9: when serializing the response fails, or when signing the message fails,
  \<open>sendResponse\<close> returns the error without any call of \<open>SendToGateway\<close>, and its caller
  only logs the error. When \<open>SendToGateway\<close> returns an error, it has been called once,
  and the caller logs the error and does nothing else.
\<close>

theorem send_failures_only_logged:
  "(json_Marshal l p = Inl e \<longrightarrow>
      sendResponse l h ctx gatewayId rb p w = (Returned (Some e), w, [])
    \<and> send_and_log l h ctx gatewayId rb p w =
        (Returned (), w,
         [Log_Errorw ''failed to send response to gateway''
            [(''id'', Str gatewayId), (''error'', Error e)]]))
   \<and> (json_Marshal l p = Inr pj
      \<and> Message_Sign l (signerKey h) (response_message h rb pj) = Inl e \<longrightarrow>
      sendResponse l h ctx gatewayId rb p w = (Returned (Some e), w, [])
    \<and> send_and_log l h ctx gatewayId rb p w =
        (Returned (), w,
         [Log_Errorw ''failed to send response to gateway''
            [(''id'', Str gatewayId), (''error'', Error e)]]))
   \<and> (json_Marshal l p = Inr pj
      \<and> Message_Sign l (signerKey h) (response_message h rb pj) = Inr m
      \<and> connector h = Some c
      \<and> SendToGateway c ctx gatewayId m w = (Some e, w') \<longrightarrow>
      sendResponse l h ctx gatewayId rb p w =
        (Returned (Some e), w', [Call_SendToGateway ctx gatewayId m])
    \<and> send_and_log l h ctx gatewayId rb p w =
        (Returned (), w',
         [Call_SendToGateway ctx gatewayId m,
          Log_Errorw ''failed to send response to gateway''
            [(''id'', Str gatewayId), (''error'', Error e)]]))"
  by (simp add: send_and_log_def sendResponse_def)

theorem send_failures_only_logged_witness:
  "json_Marshal (test_lib\<lparr>json_Marshal := \<lambda>p. Inl ''unsupported type''\<rparr>)
      (SetResponse_of \<lparr>SetResponse.Success = True, SetResponse.ErrorMessage = []\<rparr>)
     = Inl ''unsupported type''
   \<and> send_and_log (test_lib\<lparr>json_Marshal := \<lambda>p. Inl ''unsupported type''\<rparr>) test_handler 7 ''gw''
       (Body (test_message ''0x01'' ''secrets_set'' [1]))
       (SetResponse_of \<lparr>SetResponse.Success = True, SetResponse.ErrorMessage = []\<rparr>) test_world
     = (Returned (), test_world,
        [Log_Errorw ''failed to send response to gateway''
           [(''id'', Str ''gw''), (''error'', Error ''unsupported type'')]])
   \<and> Message_Sign test_lib (signerKey (test_handler\<lparr>signerKey := test_key\<lparr>D := 0\<rparr>\<rparr>))
       (response_message (test_handler\<lparr>signerKey := test_key\<lparr>D := 0\<rparr>\<rparr>)
          (Body (test_message ''0x01'' ''secrets_set'' [1])) [1])
     = Inl ''invalid key''
   \<and> send_and_log test_lib (test_handler\<lparr>signerKey := test_key\<lparr>D := 0\<rparr>\<rparr>) 7 ''gw''
       (Body (test_message ''0x01'' ''secrets_set'' [1]))
       (SetResponse_of \<lparr>SetResponse.Success = True, SetResponse.ErrorMessage = []\<rparr>) test_world
     = (Returned (), test_world,
        [Log_Errorw ''failed to send response to gateway''
           [(''id'', Str ''gw''), (''error'', Error ''invalid key'')]])
   \<and> SendToGateway failing_connector 7 ''gw''
        \<lparr>Message.Signature = [5, 1],
         Body = \<lparr>MessageId = ''m1'', Method = ''secrets_set'', DonId = ''don'',
                  Sender = ''0xnode'', MessageBody.Payload = [1]\<rparr>\<rparr> test_world
     = (Some ''connection closed'', test_world)
   \<and> send_and_log test_lib (SetConnector test_handler failing_connector) 7 ''gw''
       (Body (test_message ''0x01'' ''secrets_set'' [1]))
       (SetResponse_of \<lparr>SetResponse.Success = True, SetResponse.ErrorMessage = []\<rparr>) test_world
     = (Returned (), test_world,
        [Call_SendToGateway 7 ''gw''
           \<lparr>Message.Signature = [5, 1],
            Body = \<lparr>MessageId = ''m1'', Method = ''secrets_set'', DonId = ''don'',
                     Sender = ''0xnode'', MessageBody.Payload = [1]\<rparr>\<rparr>,
         Log_Errorw ''failed to send response to gateway''
           [(''id'', Str ''gw''), (''error'', Error ''connection closed'')]])"
proof -
  let ?rb = "Body (test_message ''0x01'' ''secrets_set'' [1])"
  let ?p = "SetResponse_of \<lparr>SetResponse.Success = True, SetResponse.ErrorMessage = []\<rparr>"
  let ?m = "\<lparr>Message.Signature = [5, 1],
         Body = \<lparr>MessageId = ''m1'', Method = ''secrets_set'', DonId = ''don'',
                  Sender = ''0xnode'', MessageBody.Payload = [1]\<rparr>\<rparr>"
  have a: "json_Marshal (test_lib\<lparr>json_Marshal := \<lambda>p. Inl ''unsupported type''\<rparr>) ?p
     = Inl ''unsupported type''"
    by simp
  have b: "json_Marshal test_lib ?p = Inr [1]"
    by (simp add: test_defs)
  have c: "Message_Sign test_lib (signerKey (test_handler\<lparr>signerKey := test_key\<lparr>D := 0\<rparr>\<rparr>))
       (response_message (test_handler\<lparr>signerKey := test_key\<lparr>D := 0\<rparr>\<rparr>) ?rb [1])
     = Inl ''invalid key''"
    by (simp add: Message_Sign_def test_defs)
  have d: "Message_Sign test_lib (signerKey (SetConnector test_handler failing_connector))
       (response_message (SetConnector test_handler failing_connector) ?rb [1]) = Inr ?m"
    by (simp add: Message_Sign_def response_message_def test_defs)
  have e: "connector (SetConnector test_handler failing_connector) = Some failing_connector"
    by (simp add: SetConnector_def)
  have f: "SendToGateway failing_connector 7 ''gw'' ?m test_world
     = (Some ''connection closed'', test_world)"
    by (simp add: failing_connector_def)
  from a send_failures_only_logged [of "test_lib\<lparr>json_Marshal := \<lambda>p. Inl ''unsupported type''\<rparr>" ?p
      "''unsupported type''" test_handler 7 "''gw''" ?rb test_world]
  have 1: "send_and_log (test_lib\<lparr>json_Marshal := \<lambda>p. Inl ''unsupported type''\<rparr>) test_handler
       7 ''gw'' ?rb ?p test_world
     = (Returned (), test_world,
        [Log_Errorw ''failed to send response to gateway''
           [(''id'', Str ''gw''), (''error'', Error ''unsupported type'')]])"
    by blast
  from b c send_failures_only_logged [of test_lib ?p "''invalid key''" "test_handler\<lparr>signerKey := test_key\<lparr>D := 0\<rparr>\<rparr>"
      7 "''gw''" ?rb test_world "[1]"]
  have 2: "send_and_log test_lib (test_handler\<lparr>signerKey := test_key\<lparr>D := 0\<rparr>\<rparr>) 7 ''gw''
       ?rb ?p test_world
     = (Returned (), test_world,
        [Log_Errorw ''failed to send response to gateway''
           [(''id'', Str ''gw''), (''error'', Error ''invalid key'')]])"
    by blast
  from b d e f send_failures_only_logged [of test_lib ?p "''connection closed''"
      "SetConnector test_handler failing_connector" 7 "''gw''" ?rb test_world "[1]" ?m
      failing_connector test_world]
  have 3: "send_and_log test_lib (SetConnector test_handler failing_connector) 7 ''gw''
       ?rb ?p test_world
     = (Returned (), test_world,
        [Call_SendToGateway 7 ''gw'' ?m,
         Log_Errorw ''failed to send response to gateway''
           [(''id'', Str ''gw''), (''error'', Error ''connection closed'')]])"
    by blast
  from a c f 1 2 3 show ?thesis by blast
qed

subsection \<open>The sender's address\<close>

text \<open>
  C10: for every message, whatever its sender string is, the handler first asks the
  allowlist about the address that \<open>HexToAddress\<close> gives for it, and every storage call
  it makes is for that address. The allowlist's answer alone decides: when it admits the
  address the handler goes on to the dispatch, and only when it does not is the request
  rejected. \<open>HexToAddress\<close> is a function from strings to 20-byte addresses that returns
  no error, so there is no other way for the sender field to stop a request.
\<close>

theorem sender_conversion_never_rejects:
  "let fromAddr = HexToAddress l (Sender (Body msg));
       evs = events (HandleGatewayMessage l h ctx gatewayId msg w)
   in hd evs = Call_Allow fromAddr
    \<and> (\<forall>e \<in> set evs. storage_owner e = None \<or> storage_owner e = Some fromAddr)
    \<and> (fst (Allow (allowlist h) fromAddr w) \<longrightarrow>
         take 2 evs =
           [Call_Allow fromAddr,
            Log_Debugw ''handling gateway request''
              [(''id'', Str gatewayId), (''method'', Str (Method (Body msg)))]])
    \<and> (\<not> fst (Allow (allowlist h) fromAddr w) \<longrightarrow>
         evs =
           [Call_Allow fromAddr,
            Log_Errorw ''allowlist prevented the request from this address''
              [(''id'', Str gatewayId), (''address'', Addr fromAddr)]])"
proof -
  let ?a = "HexToAddress l (Sender (Body msg))"
  let ?evs = "events (HandleGatewayMessage l h ctx gatewayId msg w)"
  have no_owner: "\<forall>e \<in> set (events (send_and_log l h ctx gatewayId rb p w')).
      storage_owner e = None" for rb p w'
    by (auto simp add: send_and_log_def sendResponse_def events_def
        split: sum.splits option.splits prod.splits)
  have set_owner: "\<forall>e \<in> set (events (secretsSetResponse l h ctx (Body msg) ?a w')).
      storage_owner e = Some ?a" for w'
    by (auto simp add: secretsSetResponse_def events_def Let_def
        split: sum.splits option.splits prod.splits)
  show ?thesis
  proof (cases "Allow (allowlist h) ?a w")
    case (Pair b w1)
    show ?thesis
    proof (cases b)
      case False
      with Pair show ?thesis
        by (simp add: HandleGatewayMessage_def events_def Let_def)
    next
      case True
      with Pair have al: "Allow (allowlist h) ?a w = (True, w1)" by simp
      note E = events_HandleGatewayMessage_allowed [OF al, of ctx gatewayId]
      have hd: "hd ?evs = Call_Allow ?a" and tk: "take 2 ?evs =
           [Call_Allow ?a,
            Log_Debugw ''handling gateway request''
              [(''id'', Str gatewayId), (''method'', Str (Method (Body msg)))]]"
        by (simp_all add: E)
      have own: "\<forall>e \<in> set ?evs. storage_owner e = None \<or> storage_owner e = Some ?a"
        using no_owner set_owner
        by (auto simp add: E events_handleSecretsSet events_handleSecretsList
            secretsListResponse_events)
      from hd tk own al show ?thesis by (simp add: Let_def)
    qed
  qed
qed

theorem sender_conversion_never_rejects_witness:
  "HexToAddress test_lib (Sender (Body (test_message ''zz'' ''secrets_list'' []))) = 0
   \<and> fst (Allow (allowlist test_handler) 0 test_world)
   \<and> take 2 (events (HandleGatewayMessage test_lib test_handler 7 ''gw''
         (test_message ''zz'' ''secrets_list'' []) test_world))
       = [Call_Allow 0,
          Log_Debugw ''handling gateway request''
            [(''id'', Str ''gw''), (''method'', Str ''secrets_list'')]]
   \<and> map storage_owner (filter is_storage (events (HandleGatewayMessage test_lib test_handler
         7 ''gw'' (test_message ''zz'' ''secrets_list'' []) test_world)))
       = [Some 0]
   \<and> HexToAddress test_lib (Sender (Body (test_message ''0x02'' ''secrets_list'' []))) = 2
   \<and> \<not> fst (Allow (allowlist test_handler) 2 test_world)
   \<and> events (HandleGatewayMessage test_lib test_handler 7 ''gw''
         (test_message ''0x02'' ''secrets_list'' []) test_world)
       = [Call_Allow 2,
          Log_Errorw ''allowlist prevented the request from this address''
            [(''id'', Str ''gw''), (''address'', Addr 2)]]"
proof -
  have a: "HexToAddress test_lib (Sender (Body (test_message ''zz'' ''secrets_list'' []))) = 0"
    by (simp add: test_defs)
  have b: "fst (Allow (allowlist test_handler) 0 test_world)"
    by (simp add: test_defs)
  have c: "Method (Body (test_message ''zz'' ''secrets_list'' [])) = ''secrets_list''"
    by (simp add: test_defs)
  have a2: "HexToAddress test_lib (Sender (Body (test_message ''0x02'' ''secrets_list'' []))) = 2"
    by (simp add: test_defs)
  have b2: "\<not> fst (Allow (allowlist test_handler) 2 test_world)"
    by (simp add: test_defs)
  from sender_conversion_never_rejects [of test_lib "test_message ''zz'' ''secrets_list'' []" test_handler 7 "''gw''"
      test_world] b
  have t: "take 2 (events (HandleGatewayMessage test_lib test_handler 7 ''gw''
         (test_message ''zz'' ''secrets_list'' []) test_world))
       = [Call_Allow 0,
          Log_Debugw ''handling gateway request''
            [(''id'', Str ''gw''), (''method'', Str ''secrets_list'')]]"
    by (simp add: Let_def a c)
  from sender_conversion_never_rejects [of test_lib "test_message ''0x02'' ''secrets_list'' []" test_handler 7 "''gw''"
      test_world] b2
  have r: "events (HandleGatewayMessage test_lib test_handler 7 ''gw''
         (test_message ''0x02'' ''secrets_list'' []) test_world)
       = [Call_Allow 2,
          Log_Errorw ''allowlist prevented the request from this address''
            [(''id'', Str ''gw''), (''address'', Addr 2)]]"
    by (simp add: Let_def a2)
  have o: "map storage_owner (filter is_storage (events (HandleGatewayMessage test_lib
         test_handler 7 ''gw'' (test_message ''zz'' ''secrets_list'' []) test_world)))
       = [Some 0]"
    by (simp add: test_malformed_run)
  from a b t o a2 b2 r show ?thesis by blast
qed

end
